theory Spec2Isabelle
  imports Main "HOL-Library.Sublist" "HOL-Library.AList" "HOL-Library.Char_ord"
    "HOL-Library.List_Lexorder"
begin

section \<open>Python values used by pep8.py\<close>

text \<open>
  pep8.py is a Python 2 program: a \<open>str\<close> is a sequence of bytes, modelled as
  \<^typ>\<open>string\<close> (a list of 8-bit characters); integers are unbounded, modelled as
  \<^typ>\<open>int\<close>. An exception that the program does not catch is a value of
  \<open>error\<close>, returned on the left of a sum.
\<close>

datatype error =
    AssertionError | IndexError | KeyError | TypeError | UnboundLocalError | AttributeError
  | TokenError | Nontermination

subsection \<open>Indexing and slicing\<close>

definition py_index :: "'a list \<Rightarrow> int \<Rightarrow> 'a option" where
  \<comment> \<open>\<open>xs[i]\<close>, with \<open>None\<close> for IndexError; \<open>xs[-1]\<close> is the last element\<close>
  "py_index xs i =
     (if 0 \<le> i \<and> i < int (length xs) then Some (xs ! nat i)
      else if i < 0 \<and> - int (length xs) \<le> i then Some (xs ! nat (int (length xs) + i))
      else None)"

definition py_bound :: "nat \<Rightarrow> int \<Rightarrow> nat" where
  \<comment> \<open>a slice bound, brought into \<open>0..n\<close> as Python does\<close>
  "py_bound n i = (if i < 0 then nat (int n + i) else min n (nat i))"

definition py_slice :: "'a list \<Rightarrow> int \<Rightarrow> int \<Rightarrow> 'a list" where
  \<comment> \<open>\<open>xs[a:b]\<close>\<close>
  "py_slice xs a b =
     (let lo = py_bound (length xs) a; hi = py_bound (length xs) b
      in take (hi - lo) (drop lo xs))"

definition slice_to :: "'a list \<Rightarrow> int \<Rightarrow> 'a list" where
  \<comment> \<open>\<open>xs[:b]\<close>\<close>
  "slice_to xs b = take (py_bound (length xs) b) xs"

definition slice_from :: "'a list \<Rightarrow> int \<Rightarrow> 'a list" where
  \<comment> \<open>\<open>xs[a:]\<close>\<close>
  "slice_from xs a = drop (py_bound (length xs) a) xs"

subsection \<open>String methods\<close>

fun startswith :: "string \<Rightarrow> string \<Rightarrow> bool" where
  "startswith s [] = True"
| "startswith [] (p # ps) = False"
| "startswith (c # s) (p # ps) = (c = p \<and> startswith s ps)"

definition endswith :: "string \<Rightarrow> string \<Rightarrow> bool" where
  "endswith s p = startswith (rev s) (rev p)"

fun find_from :: "nat \<Rightarrow> string \<Rightarrow> string \<Rightarrow> int" where
  \<comment> \<open>\<open>s.find(sub)\<close>, counting from the offset already consumed\<close>
  "find_from k [] sub = (if sub = [] then int k else -1)"
| "find_from k (c # s) sub =
     (if startswith (c # s) sub then int k else find_from (Suc k) s sub)"

definition find :: "string \<Rightarrow> string \<Rightarrow> int" where
  "find s sub = find_from 0 s sub"

definition contains :: "string \<Rightarrow> string \<Rightarrow> bool" where
  \<comment> \<open>\<open>sub in s\<close> for strings is a substring test\<close>
  "contains s sub = (0 \<le> find s sub)"

definition count_char :: "string \<Rightarrow> char \<Rightarrow> int" where
  \<comment> \<open>\<open>s.count(c)\<close> for a one-character string \<open>c\<close>\<close>
  "count_char s c = int (length (filter (\<lambda>x. x = c) s))"

definition isspace :: "char \<Rightarrow> bool" where
  \<comment> \<open>the characters that \<open>strip()\<close> without argument removes from a byte string:
      space, tab, newline, carriage return, vertical tab, form feed\<close>
  "isspace c = (c \<in> set [CHR '' '', CHR 0x09, CHR 0x0A, CHR 0x0D, CHR 0x0B, CHR 0x0C])"

definition lstrip :: "string \<Rightarrow> string" where
  "lstrip s = dropWhile isspace s"

definition rstrip :: "string \<Rightarrow> string" where
  "rstrip s = rev (dropWhile isspace (rev s))"

definition strip :: "string \<Rightarrow> string" where
  "strip s = lstrip (rstrip s)"

definition rstrip_chars :: "string \<Rightarrow> string \<Rightarrow> string" where
  \<comment> \<open>\<open>s.rstrip(chars)\<close>\<close>
  "rstrip_chars s chars = rev (dropWhile (\<lambda>c. c \<in> set chars) (rev s))"

definition replace_char :: "string \<Rightarrow> char \<Rightarrow> string \<Rightarrow> string" where
  \<comment> \<open>\<open>s.replace(c, new)\<close> for a one-character string \<open>c\<close>\<close>
  "replace_char s c new = concat (map (\<lambda>x. if x = c then new else [x]) s)"

definition repeat :: "string \<Rightarrow> int \<Rightarrow> string" where
  \<comment> \<open>\<open>s * n\<close>: empty when \<open>n\<close> is not positive\<close>
  "repeat s n = concat (replicate (nat n) s)"

function digits :: "nat \<Rightarrow> string" where
  "digits n =
     (if n < 10 then [char_of (48 + n)] else digits (n div 10) @ [char_of (48 + n mod 10)])"
  by pat_completeness auto
termination
  by (relation "measure (\<lambda>n. n)") auto

declare digits.simps [simp del]

definition str_int :: "int \<Rightarrow> string" where
  \<comment> \<open>\<open>'%d' % i\<close> and \<open>'%s' % i\<close> for an integer\<close>
  "str_int i = (if i < 0 then CHR ''-'' # digits (nat (- i)) else digits (nat i))"

section \<open>Regular expressions\<close>

text \<open>
  The patterns of pep8.py, as syntax trees, and a backtracking matcher for them that
  lists the ways a pattern matches at a position in the order in which Python's
  \<open>re\<close> module tries them (left alternative first, greedy repetition); the match
  \<open>re\<close> returns is the first of the list. No pattern of pep8.py matches the empty
  string, and every group of its patterns takes part in every match.
\<close>

datatype regex =
    Eps
  | Cls string             \<comment> \<open>\<open>[...]\<close>: one character of the set\<close>
  | NCls string            \<comment> \<open>\<open>[^...]\<close>: one character not in the set\<close>
  | Seq regex regex
  | Alt regex regex        \<comment> \<open>\<open>a|b\<close>\<close>
  | Star regex             \<comment> \<open>\<open>a*\<close>, greedy\<close>
  | Grp nat regex          \<comment> \<open>\<open>(a)\<close>, the group with this number\<close>
  | WordB                  \<comment> \<open>\<open>\b\<close>\<close>
  | Eol                    \<comment> \<open>\<open>$\<close>\<close>
  | NotAhead regex         \<comment> \<open>\<open>(?!a)\<close>\<close>

record mstate =
  m_pos :: nat
  m_prev :: "char option"
  m_rest :: string
  m_groups :: "(nat \<times> nat \<times> nat) list"

definition word_chars :: string where
  \<comment> \<open>\<open>\w\<close> without the LOCALE and UNICODE flags\<close>
  "word_chars = ''abcdefghijklmnopqrstuvwxyzABCDEFGHIJKLMNOPQRSTUVWXYZ0123456789_''"

definition space_chars :: string where
  \<comment> \<open>\<open>\s\<close>: \<open>[ \t\n\r\f\v]\<close>\<close>
  "space_chars = [CHR '' '', CHR 0x09, CHR 0x0A, CHR 0x0D, CHR 0x0C, CHR 0x0B]"

definition is_word :: "char option \<Rightarrow> bool" where
  "is_word c = (case c of None \<Rightarrow> False | Some x \<Rightarrow> x \<in> set word_chars)"

definition advance :: "mstate \<Rightarrow> mstate list" where
  "advance st =
     (case m_rest st of
        [] \<Rightarrow> []
      | c # rest \<Rightarrow> [st\<lparr>m_pos := Suc (m_pos st), m_prev := Some c, m_rest := rest\<rparr>])"

function matches :: "regex \<Rightarrow> mstate \<Rightarrow> mstate list" where
  "matches Eps st = [st]"
| "matches (Cls cs) st =
     (case m_rest st of [] \<Rightarrow> [] | c # rest \<Rightarrow> if c \<in> set cs then advance st else [])"
| "matches (NCls cs) st =
     (case m_rest st of [] \<Rightarrow> [] | c # rest \<Rightarrow> if c \<in> set cs then [] else advance st)"
| "matches (Seq r1 r2) st = concat (map (matches r2) (matches r1 st))"
| "matches (Alt r1 r2) st = matches r1 st @ matches r2 st"
| "matches (Star r) st =
     concat (map (\<lambda>st'. if length (m_rest st') < length (m_rest st)
                          then matches (Star r) st' else [])
                 (matches r st)) @ [st]"
| "matches (Grp n r) st =
     map (\<lambda>st'. st'\<lparr>m_groups := (n, m_pos st, m_pos st') # m_groups st'\<rparr>) (matches r st)"
| "matches WordB st =
     (if is_word (m_prev st) \<noteq> is_word (case m_rest st of [] \<Rightarrow> None | c # _ \<Rightarrow> Some c)
      then [st] else [])"
| "matches Eol st = (if m_rest st = [] \<or> m_rest st = [CHR 0x0A] then [st] else [])"
| "matches (NotAhead r) st = (if matches r st = [] then [st] else [])"
  by pat_completeness auto
termination
  by (relation "measures [\<lambda>(r, st). size r, \<lambda>(r, st). length (m_rest st)]") auto

definition lit :: "string \<Rightarrow> regex" where
  \<comment> \<open>a literal string\<close>
  "lit s = foldr (\<lambda>c r. Seq (Cls [c]) r) s Eps"

definition plus :: "regex \<Rightarrow> regex" where
  \<comment> \<open>\<open>a+\<close>\<close>
  "plus r = Seq r (Star r)"

definition opt :: "regex \<Rightarrow> regex" where
  \<comment> \<open>\<open>a?\<close>\<close>
  "opt r = Alt r Eps"

record match =
  mt_string :: string
  mt_start :: nat
  mt_end :: nat
  mt_groups :: "(nat \<times> nat \<times> nat) list"

definition match_at :: "regex \<Rightarrow> string \<Rightarrow> nat \<Rightarrow> char option \<Rightarrow> string \<Rightarrow> (match \<times> mstate) option" where
  \<comment> \<open>the match of the pattern at one position of the subject, if there is one\<close>
  "match_at r subject pos prev rest =
     (case matches r \<lparr>m_pos = pos, m_prev = prev, m_rest = rest, m_groups = []\<rparr> of
        [] \<Rightarrow> None
      | st # _ \<Rightarrow> Some (\<lparr>mt_string = subject, mt_start = pos, mt_end = m_pos st,
                          mt_groups = m_groups st\<rparr>, st))"

definition re_match :: "regex \<Rightarrow> string \<Rightarrow> match option" where
  \<comment> \<open>\<open>regex.match(s)\<close>: at the start of the string only\<close>
  "re_match r s = map_option fst (match_at r s 0 None s)"

function scan :: "regex \<Rightarrow> string \<Rightarrow> nat \<Rightarrow> char option \<Rightarrow> string \<Rightarrow> match list" where
  "scan r subject pos prev rest =
     (case match_at r subject pos prev rest of
        Some (m, st) \<Rightarrow>
          if length (m_rest st) < length rest then m # scan r subject (m_pos st) (m_prev st) (m_rest st)
          else (case rest of [] \<Rightarrow> [m] | c # rest' \<Rightarrow> m # scan r subject (Suc pos) (Some c) rest')
      | None \<Rightarrow>
          (case rest of [] \<Rightarrow> [] | c # rest' \<Rightarrow> scan r subject (Suc pos) (Some c) rest'))"
  by pat_completeness auto
termination
  by (relation "measure (\<lambda>(r, subject, pos, prev, rest). length rest)") auto

declare scan.simps [simp del]

definition finditer :: "regex \<Rightarrow> string \<Rightarrow> match list" where
  \<comment> \<open>\<open>regex.finditer(s)\<close>: the matches that do not overlap, from left to right\<close>
  "finditer r s = scan r s 0 None s"

definition re_search :: "regex \<Rightarrow> string \<Rightarrow> match option" where
  "re_search r s = (case finditer r s of [] \<Rightarrow> None | m # _ \<Rightarrow> Some m)"

definition group0 :: "match \<Rightarrow> string" where
  \<comment> \<open>\<open>match.group()\<close>\<close>
  "group0 m = take (mt_end m - mt_start m) (drop (mt_start m) (mt_string m))"

definition span :: "match \<Rightarrow> nat \<Rightarrow> nat \<times> nat" where
  \<comment> \<open>\<open>match.span(n)\<close>, for a group that took part in the match\<close>
  "span m n = (case map_of (mt_groups m) n of Some be \<Rightarrow> be | None \<Rightarrow> (0, 0))"

definition group :: "match \<Rightarrow> nat \<Rightarrow> string" where
  \<comment> \<open>\<open>match.group(n)\<close>\<close>
  "group m n = take (snd (span m n) - fst (span m n)) (drop (fst (span m n)) (mt_string m))"

fun sub_from :: "(match \<Rightarrow> string) \<Rightarrow> string \<Rightarrow> nat \<Rightarrow> match list \<Rightarrow> string" where
  \<comment> \<open>the subject from position \<open>pos\<close> on, each match replaced\<close>
  "sub_from repl subject pos [] = drop pos subject"
| "sub_from repl subject pos (m # ms) =
     take (mt_start m - pos) (drop pos subject) @ repl m @ sub_from repl subject (mt_end m) ms"

definition re_sub :: "regex \<Rightarrow> (match \<Rightarrow> string) \<Rightarrow> string \<Rightarrow> string" where
  \<comment> \<open>\<open>regex.sub(repl, s)\<close> with a function \<open>repl\<close>\<close>
  "re_sub r repl s = sub_from repl s 0 (finditer r s)"

section \<open>Options and the select/ignore filter\<close>

text \<open>
  The fields of the global \<open>options\<close> object that the checker reads. The model covers
  runs without \<open>-v\<close> (\<open>options.verbose = 0\<close>, the default), so the debugging
  prints are left out. The mutable tables \<open>options.counters\<close> and
  \<open>options.messages\<close> are part of the checker state below.
\<close>

record options =
  opt_select :: "string list"
  opt_ignore :: "string list"
  opt_quiet :: nat
  opt_repeat :: bool
  opt_show_source :: bool
  opt_show_pep8 :: bool
  opt_fix :: bool

definition DEFAULT_IGNORE :: string where
  "DEFAULT_IGNORE = ''E24''"

definition default_options :: options where
  \<comment> \<open>what \<open>process_options\<close> builds when the command line names only input files;
      \<open>DEFAULT_IGNORE\<close> has no comma, so its split is the one prefix\<close>
  "default_options =
     \<lparr>opt_select = [], opt_ignore = [DEFAULT_IGNORE], opt_quiet = 0, opt_repeat = False,
      opt_show_source = False, opt_show_pep8 = False, opt_fix = False\<rparr>"

definition ignore_code :: "options \<Rightarrow> string \<Rightarrow> bool option" where
  \<comment> \<open>returns \<open>False\<close>, \<open>True\<close>, or falls off the end (\<open>None\<close>)\<close>
  "ignore_code opts code =
     (if list_ex (\<lambda>select. startswith code select) (opt_select opts) then Some False
      else if list_ex (\<lambda>ignore. startswith code ignore) (opt_ignore opts) then Some True
      else None)"

definition truthy :: "bool option \<Rightarrow> bool" where
  \<comment> \<open>the truth value Python gives to \<open>True\<close>, \<open>False\<close> and \<open>None\<close>\<close>
  "truthy r = (r = Some True)"

section \<open>Tokens and the checker state\<close>

text \<open>
  The tokenizer (\<open>tokenize.generate_tokens\<close>) is not part of pep8.py: its tokens are an
  input of the model. A token is the 5-tuple \<open>(type, text, start, end, line)\<close> with
  \<open>(row, column)\<close> positions, rows counted from 1 and columns from 0.
\<close>

datatype token_type =
  ENDMARKER | NAME | NUMBER | STRING | NEWLINE | INDENT | DEDENT | OP | ERRORTOKEN | COMMENT | NL

type_synonym position = "int \<times> int"

record token =
  tok_type :: token_type
  tok_text :: string
  tok_start :: position
  tok_end :: position
  tok_line :: string

definition Token :: "token_type \<Rightarrow> string \<Rightarrow> position \<Rightarrow> position \<Rightarrow> string \<Rightarrow> token" where
  \<comment> \<open>the tuple \<open>(type, text, start, end, line)\<close>\<close>
  "Token ty text start end line =
     \<lparr>tok_type = ty, tok_text = text, tok_start = start, tok_end = end, tok_line = line\<rparr>"

text \<open>
  The attributes of a \<open>Checker\<close> object, together with what it changes outside
  itself: the tables \<open>options.counters\<close> and \<open>options.messages\<close> and the lines it
  prints (one entry of \<open>stdout\<close> for each call of \<open>print\<close>).
\<close>

record checker =
  self_filename :: string
  self_lines :: "string list"
  self_fixed_physical_lines :: "string list"
  self_line_number :: int
  self_physical_line :: string
  self_indent_char :: "char option"
  self_indent_level :: int
  self_previous_indent_level :: int
  self_previous_logical :: string
  self_blank_lines :: int
  self_blank_lines_before_comment :: int
  self_tokens :: "token list"
  self_mapping :: "(int \<times> token) list"
  self_logical_line :: string
  self_muted_strings :: "string list"
  self_comment :: "string option"
  self_writer :: string
  self_file_errors :: int
  self_expected :: "string list"
  self_line_offset :: int
  counters :: "(string \<times> int) list"
  messages :: "(string \<times> string) list"
  stdout :: "string list"

text \<open>
  What a check returns besides \<open>None\<close>: \<open>(offset, text)\<close>, where the offset is an
  integer or a \<open>(row, column)\<close> pair (\<open>NoOffset\<close> stands for the value \<open>None\<close> of a
  variable that was never assigned a position).
\<close>

datatype offset = Off int | Pos position | NoOffset

type_synonym check_result = "(offset \<times> string) option"

text \<open>
  What the model takes from outside the text of the checks: the docstring of each check
  class (the checker only prints it), and the UTF-8 codec of the Python runtime, as the
  number of characters a byte string decodes to (\<open>None\<close> for UnicodeDecodeError).
\<close>

record env =
  doc_of :: "string \<Rightarrow> string"
  utf8_length :: "string \<Rightarrow> int option"

definition apostrophe :: string where
  "apostrophe = [CHR 0x27]"

definition message :: "string \<Rightarrow> checker \<Rightarrow> checker" where
  \<comment> \<open>\<open>message(text)\<close>: print a line\<close>
  "message text self = self\<lparr>stdout := stdout self @ [text]\<rparr>"

definition report_fix :: "options \<Rightarrow> string \<Rightarrow> string \<Rightarrow> string \<Rightarrow> checker \<Rightarrow> checker" where
  "report_fix opts msg old new self =
     (if opt_quiet opts = 0
      then message ('' - pep8 fix: '' @ msg @ [CHR 0x0A, CHR 0x09] @ ''-'' @
                    replace_char old (CHR 0x0A) [CHR 0x5C, CHR ''n''] @
                    [CHR 0x0A, CHR 0x09] @ ''+'' @
                    replace_char new (CHR 0x0A) [CHR 0x5C, CHR ''n'']) self
      else self)"

fun first_index :: "('a \<Rightarrow> bool) \<Rightarrow> 'a list \<Rightarrow> nat option" where
  \<comment> \<open>the index at which a loop over the list first meets the condition\<close>
  "first_index P [] = None"
| "first_index P (x # xs) =
     (if P x then Some 0 else map_option Suc (first_index P xs))"

fun first_some :: "('a \<Rightarrow> 'b option) \<Rightarrow> 'a list \<Rightarrow> 'b option" where
  \<comment> \<open>a \<open>for\<close> loop that returns the first value its body returns\<close>
  "first_some f [] = None"
| "first_some f (x # xs) = (case f x of Some r \<Rightarrow> Some r | None \<Rightarrow> first_some f xs)"

fun first_result :: "('a \<Rightarrow> error + 'b option) \<Rightarrow> 'a list \<Rightarrow> error + 'b option" where
  \<comment> \<open>the same loop, with a body that may raise\<close>
  "first_result f [] = Inr None"
| "first_result f (x # xs) =
     (case f x of
        Inl e \<Rightarrow> Inl e
      | Inr (Some r) \<Rightarrow> Inr (Some r)
      | Inr None \<Rightarrow> first_result f xs)"

section \<open>Checks for physical lines\<close>

definition MAX_LINE_LENGTH :: int where
  "MAX_LINE_LENGTH = 120"

definition INDENT_REGEX :: regex where
  \<comment> \<open>\<open>^([ \t]*)\<close>, used with \<open>match\<close>\<close>
  "INDENT_REGEX = Grp 1 (Star (Cls [CHR '' '', CHR 0x09]))"

definition indent_of :: "string \<Rightarrow> string" where
  \<comment> \<open>\<open>INDENT_REGEX.match(physical_line).group(1)\<close>; the pattern matches every string\<close>
  "indent_of physical_line =
     (case re_match INDENT_REGEX physical_line of Some m \<Rightarrow> group m 1 | None \<Rightarrow> [])"

definition tabs_or_spaces_check :: "string \<Rightarrow> char option \<Rightarrow> check_result" where
  "tabs_or_spaces_check physical_line indent_char =
     (case first_index (\<lambda>char. Some char \<noteq> indent_char) (indent_of physical_line) of
        Some offset \<Rightarrow> Some (Off (int offset), ''E101 indentation contains mixed spaces and tabs'')
      | None \<Rightarrow> None)"

definition tabs_or_spaces_fix :: "options \<Rightarrow> checker \<Rightarrow> string \<Rightarrow> checker \<times> string" where
  "tabs_or_spaces_fix opts checker physical_line =
     (let indent = indent_of physical_line;
          fixed = replace_char indent (CHR 0x09) ''    '' @
                  slice_from physical_line (int (length indent))
      in (report_fix opts ''mixed tabs and spaces converted to all spaces.''
            physical_line fixed checker, fixed))"

definition tabs_obsolete_check :: "string \<Rightarrow> check_result" where
  "tabs_obsolete_check physical_line =
     (let indent = indent_of physical_line
      in if count_char indent (CHR 0x09) \<noteq> 0
         then Some (Off (find indent [CHR 0x09]), ''W191 indentation contains tabs'')
         else None)"

definition tabs_obsolete_fix :: "options \<Rightarrow> checker \<Rightarrow> string \<Rightarrow> checker \<times> string" where
  "tabs_obsolete_fix opts checker physical_line =
     (let fixed = replace_char physical_line (CHR 0x09) ''    ''
      in (report_fix opts ''tab converted to 4 spaces.'' physical_line fixed checker, fixed))"

definition trailing_whitespace_check :: "string \<Rightarrow> check_result" where
  "trailing_whitespace_check line =
     (let physical_line = rstrip_chars line [CHR 0x0A];
          physical_line = rstrip_chars physical_line [CHR 0x0D];
          physical_line = rstrip_chars physical_line [CHR 0x0C];
          stripped = rstrip physical_line
      in if physical_line \<noteq> stripped
         then (if stripped \<noteq> []
               then Some (Off (int (length stripped)), ''W291 trailing whitespace'')
               else Some (Off 0, ''W293 blank line contains whitespace''))
         else None)"

definition TRAILING_REGEX :: regex where
  \<comment> \<open>\<open>[ \n\r\t]+$\<close>\<close>
  "TRAILING_REGEX = Seq (plus (Cls [CHR '' '', CHR 0x0A, CHR 0x0D, CHR 0x09])) Eol"

definition trailing_whitespace_fix :: "options \<Rightarrow> checker \<Rightarrow> string \<Rightarrow> checker \<times> string" where
  "trailing_whitespace_fix opts checker physical_line =
     (let fixed = re_sub TRAILING_REGEX (\<lambda>m. [CHR 0x0A]) physical_line
      in (report_fix opts ''whitespace stripped from end of line.'' physical_line fixed checker,
          fixed))"

definition trailing_blank_lines_check :: "string \<Rightarrow> string list \<Rightarrow> int \<Rightarrow> check_result" where
  "trailing_blank_lines_check physical_line lines line_number =
     (if strip physical_line = [] \<and> line_number = int (length lines)
      then Some (Off 0, ''W391 blank line at end of file'')
      else None)"

definition trailing_blank_lines_fix :: "options \<Rightarrow> checker \<Rightarrow> string \<Rightarrow> checker \<times> string" where
  "trailing_blank_lines_fix opts checker physical_line =
     (let fixed = []
      in (report_fix opts ''superfluous trailing blank line removed from end of file.''
            physical_line fixed checker, fixed))"

definition missing_newline_check :: "string \<Rightarrow> check_result" where
  "missing_newline_check physical_line =
     (if rstrip physical_line = physical_line
      then Some (Off (int (length physical_line)), ''W292 no newline at end of file'')
      else None)"

definition missing_newline_fix :: "options \<Rightarrow> checker \<Rightarrow> string \<Rightarrow> checker \<times> string" where
  "missing_newline_fix opts checker physical_line =
     (let fixed = physical_line @ [CHR 0x0A]
      in (report_fix opts ''newline added to end of file.'' physical_line fixed checker, fixed))"

definition decoded_length :: "env \<Rightarrow> string \<Rightarrow> int" where
  \<comment> \<open>the \<open>try\<close> block: the decoded length, or the byte length when decoding fails\<close>
  "decoded_length e line =
     (case utf8_length e line of Some n \<Rightarrow> n | None \<Rightarrow> int (length line))"

definition maximum_line_length_check :: "env \<Rightarrow> string \<Rightarrow> check_result" where
  "maximum_line_length_check e physical_line =
     (let line = rstrip physical_line;
          len = int (length line);
          len = (if len > MAX_LINE_LENGTH then decoded_length e line else len)
      in if len > MAX_LINE_LENGTH
         then Some (Off MAX_LINE_LENGTH,
                    ''E501 line too long ('' @ str_int len @ '' characters)'')
         else None)"

section \<open>Checks for logical lines\<close>

definition WHITESPACE :: string where
  "WHITESPACE = [CHR '' '', CHR 0x09]"

definition TAB_SIZE :: int where
  "TAB_SIZE = 4"

definition BINARY_OPERATORS :: "string list" where
  "BINARY_OPERATORS = [''**='', ''*='', ''+='', ''-='', ''!='', ''<>'',
     ''%='', ''^='', ''&='', ''|='', ''=='', ''/='', ''//='', ''<='', ''>='', ''<<='', ''>>='',
     ''%'', ''^'', ''&'', ''|'', ''='', ''/'', ''//'', ''<'', ''>'', ''<<'']"

definition UNARY_OPERATORS :: "string list" where
  "UNARY_OPERATORS = [''>>'', ''**'', ''*'', ''+'', ''-'']"

definition OPERATORS :: "string list" where
  "OPERATORS = BINARY_OPERATORS @ UNARY_OPERATORS"

definition SKIP_TOKENS :: "token_type list" where
  "SKIP_TOKENS = [NL, INDENT, DEDENT, NEWLINE]"

definition kwlist :: "string list" where
  \<comment> \<open>\<open>keyword.kwlist\<close> of Python 2.7\<close>
  "kwlist = [''and'', ''as'', ''assert'', ''break'', ''class'', ''continue'', ''def'', ''del'',
     ''elif'', ''else'', ''except'', ''exec'', ''finally'', ''for'', ''from'', ''global'', ''if'',
     ''import'', ''in'', ''is'', ''lambda'', ''not'', ''or'', ''pass'', ''print'', ''raise'',
     ''return'', ''try'', ''while'', ''with'', ''yield'']"

definition iskeyword :: "string \<Rightarrow> bool" where
  "iskeyword s = (s \<in> set kwlist)"

definition E225NOT_KEYWORDS :: "string list" where
  "E225NOT_KEYWORDS =
     filter (\<lambda>k. k \<notin> set [''False'', ''None'', ''True'']) (kwlist @ [''print''])"

subsection \<open>blank\_lines\<close>

definition DOCSTRING_REGEX :: regex where
  \<comment> \<open>\<open>u?r?["\']\<close>, used with \<open>match\<close>\<close>
  "DOCSTRING_REGEX = Seq (opt (Cls ''u'')) (Seq (opt (Cls ''r'')) (Cls [CHR 0x22, CHR 0x27]))"

definition blank_lines_check ::
  "string \<Rightarrow> int \<Rightarrow> int \<Rightarrow> int \<Rightarrow> string \<Rightarrow> int \<Rightarrow> int \<Rightarrow> check_result" where
  "blank_lines_check logical_line blank_lines indent_level line_number
       previous_logical previous_indent_level blank_lines_before_comment =
     (if line_number = 1 then None
      else
        let max_blank_lines = max blank_lines blank_lines_before_comment
        in if startswith previous_logical ''@''
           then (if max_blank_lines \<noteq> 0
                 then Some (Off 0, ''E304 blank lines found after function decorator'')
                 else None)
           else if max_blank_lines > 2 \<or> (indent_level \<noteq> 0 \<and> max_blank_lines = 2)
           then Some (Off 0, ''E303 too many blank lines ('' @ str_int max_blank_lines @ '')'')
           else if startswith logical_line ''def '' \<or> startswith logical_line ''class '' \<or>
                   startswith logical_line ''@''
           then (if indent_level \<noteq> 0
                 then (if \<not> (max_blank_lines \<noteq> 0 \<or> previous_indent_level < indent_level \<or>
                             re_match DOCSTRING_REGEX previous_logical \<noteq> None)
                       then Some (Off 0, ''E301 expected 1 blank line, found 0'')
                       else None)
                 else if max_blank_lines \<noteq> 2
                 then Some (Off 0, ''E302 expected 2 blank lines, found '' @ str_int max_blank_lines)
                 else None)
           else None)"

definition blank_lines_fix ::
  "checker \<Rightarrow> string \<Rightarrow> int \<Rightarrow> int \<Rightarrow> int \<Rightarrow> string \<Rightarrow> int \<Rightarrow> int \<Rightarrow> checker" where
  "blank_lines_fix checker logical_line blank_lines indent_level line_number
       previous_logical previous_indent_level blank_lines_before_comment =
     (if line_number = 1 then checker
      else
        let expected_blank_lines = (if indent_level \<noteq> 0 then 1 else 2);
            max_blank_lines = max blank_lines blank_lines_before_comment
        in if startswith previous_logical ''@''
           then (if max_blank_lines \<noteq> 0 then checker\<lparr>self_blank_lines := 0\<rparr> else checker)
           else if max_blank_lines > expected_blank_lines
           then checker\<lparr>self_blank_lines := min max_blank_lines expected_blank_lines\<rparr>
           else if startswith logical_line ''def '' \<or> startswith logical_line ''class '' \<or>
                   startswith logical_line ''@''
           then (if indent_level \<noteq> 0
                 then (if \<not> (max_blank_lines \<noteq> 0 \<or> previous_indent_level < indent_level \<or>
                             re_match DOCSTRING_REGEX previous_logical \<noteq> None)
                       then checker\<lparr>self_blank_lines := 1\<rparr>
                       else checker)
                 else if max_blank_lines \<noteq> 2
                 then checker\<lparr>self_blank_lines := 2\<rparr>
                 else checker)
           else checker)"

subsection \<open>extraneous\_whitespace\<close>

definition EXTRANEOUS_WHITESPACE_REGEX :: regex where
  \<comment> \<open>\<open>[\[\(\{] | [\]\}\)\,\;\:]+\<close>\<close>
  "EXTRANEOUS_WHITESPACE_REGEX =
     Alt (Seq (Cls ''[({'') (Cls '' '')) (Seq (Cls '' '') (plus (Cls '']}),;:'')))"

definition extraneous_whitespace_body :: "string \<Rightarrow> match \<Rightarrow> error + check_result" where
  \<comment> \<open>the body of the loop for one match; \<open>None\<close> when it returns nothing\<close>
  "extraneous_whitespace_body line m =
     (let text = group0 m; char = strip text; found = int (mt_start m)
      in if text = char @ '' '' \<and> contains ''([{'' char
         then Inr (Some (Off (found + 1),
                         ''E201 whitespace after '' @ apostrophe @ char @ apostrophe))
         else if text = '' '' @ char
         then (case py_index line (found - 1) of
                 None \<Rightarrow> Inl IndexError
               | Some c \<Rightarrow>
                   if c \<noteq> CHR '',''
                   then (if contains ''}])'' char
                         then Inr (Some (Off found,
                                 ''E202 whitespace before '' @ apostrophe @ char @ apostrophe))
                         else if contains '',;:'' char
                         then Inr (Some (Off found,
                                 ''E203 whitespace before '' @ apostrophe @ char @ apostrophe))
                         else Inr None)
                   else Inr None)
         else Inr None)"

definition extraneous_whitespace_check :: "string \<Rightarrow> error + check_result" where
  "extraneous_whitespace_check logical_line =
     first_result (extraneous_whitespace_body logical_line)
       (finditer EXTRANEOUS_WHITESPACE_REGEX logical_line)"

definition extraneous_whitespace_fix :: "checker \<Rightarrow> string \<Rightarrow> checker" where
  "extraneous_whitespace_fix checker logical_line =
     checker\<lparr>self_logical_line :=
       re_sub EXTRANEOUS_WHITESPACE_REGEX (\<lambda>m. strip (group0 m)) logical_line\<rparr>"

subsection \<open>missing\_whitespace\<close>

definition missing_whitespace_body :: "string \<Rightarrow> nat \<Rightarrow> check_result" where
  \<comment> \<open>the body of the loop for one \<open>index\<close> of \<open>range(len(line) - 1)\<close>\<close>
  "missing_whitespace_body line index =
     (let char = line ! index
      in if char \<in> set '',;:'' \<and> line ! (index + 1) \<notin> set WHITESPACE
         then
           let before = take index line
           in if char = CHR '':'' \<and>
                 count_char before (CHR ''['') > count_char before (CHR '']'')
              then None
              else if char = CHR '','' \<and> line ! (index + 1) \<in> set '')]''
              then None
              else Some (Off (int index),
                         ''E231 missing whitespace after '' @ apostrophe @ [char] @ apostrophe)
         else None)"

definition missing_whitespace_check :: "string \<Rightarrow> check_result" where
  "missing_whitespace_check logical_line =
     first_some (missing_whitespace_body logical_line) [0 ..< length logical_line - 1]"

definition missing_whitespace_fix_step :: "nat \<times> char \<Rightarrow> string \<Rightarrow> error + string" where
  \<comment> \<open>the body of the loop of \<open>fix\<close>, for one \<open>(index, char)\<close> of the original line\<close>
  "missing_whitespace_fix_step ic line =
     (if snd ic \<in> set '',;:''
      then (case py_index line (int (fst ic) + 1) of
              None \<Rightarrow> Inl IndexError
            | Some next_char \<Rightarrow>
                if next_char \<notin> set WHITESPACE
                then
                  let before = slice_to line (int (fst ic))
                  in if snd ic = CHR '':'' \<and>
                        count_char before (CHR ''['') > count_char before (CHR '']'')
                     then Inr line
                     else if snd ic = CHR '','' \<and> next_char \<in> set '')]''
                     then Inr line
                     else Inr (slice_to line (int (fst ic) + 1) @ '' '' @
                               slice_from line (int (fst ic) + 1))
                else Inr line)
      else Inr line)"

fun missing_whitespace_fix_loop :: "(nat \<times> char) list \<Rightarrow> string \<Rightarrow> error + string" where
  "missing_whitespace_fix_loop [] line = Inr line"
| "missing_whitespace_fix_loop (ic # ics) line =
     (case missing_whitespace_fix_step ic line of
        Inl e \<Rightarrow> Inl e
      | Inr line' \<Rightarrow> missing_whitespace_fix_loop ics line')"

definition missing_whitespace_fix :: "checker \<Rightarrow> string \<Rightarrow> error + checker" where
  "missing_whitespace_fix checker logical_line =
     (case missing_whitespace_fix_loop
             (rev (enumerate 0 (slice_to logical_line (- 1)))) logical_line of
        Inl e \<Rightarrow> Inl e
      | Inr line \<Rightarrow> Inr (checker\<lparr>self_logical_line := line\<rparr>))"

subsection \<open>indentation\<close>

definition indentation_check ::
  "string \<Rightarrow> string \<Rightarrow> char option \<Rightarrow> int \<Rightarrow> int \<Rightarrow> check_result" where
  "indentation_check logical_line previous_logical indent_char indent_level
       previous_indent_level =
     (if indent_char = Some CHR '' '' \<and> indent_level mod 4 \<noteq> 0
      then Some (Off 0, ''E111 indentation is not a multiple of four'')
      else
        let indent_expect = endswith previous_logical '':''
        in if indent_expect \<and> indent_level \<le> previous_indent_level
           then Some (Off 0, ''E112 expected an indented block'')
           else if indent_level > previous_indent_level \<and> \<not> indent_expect
           then Some (Off 0, ''E113 unexpected indentation'')
           else None)"

subsection \<open>whitespace\_before\_parameters\<close>

definition whitespace_before_parameters_body ::
  "token list \<Rightarrow> nat \<Rightarrow> check_result" where
  \<comment> \<open>the body of the loop for one \<open>index\<close> of \<open>range(1, len(tokens))\<close>; the variables
      \<open>prev_type\<close>, \<open>prev_text\<close> and \<open>prev_end\<close> hold the fields of
      \<open>tokens[index - 1]\<close>\<close>
  "whitespace_before_parameters_body tokens index =
     (let token = tokens ! index; prev = tokens ! (index - 1)
      in if tok_type token = OP \<and>
            contains ''(['' (tok_text token) \<and>
            tok_start token \<noteq> tok_end prev \<and>
            (tok_type prev = NAME \<or> contains ''}])'' (tok_text prev)) \<and>
            (index < 2 \<or> tok_text (tokens ! (index - 2)) \<noteq> ''class'') \<and>
            \<not> iskeyword (tok_text prev)
         then Some (Pos (tok_end prev),
                    ''E211 whitespace before '' @ apostrophe @ tok_text token @ apostrophe)
         else None)"

definition whitespace_before_parameters_check :: "token list \<Rightarrow> error + check_result" where
  "whitespace_before_parameters_check tokens =
     (if tokens = [] then Inl IndexError
      else Inr (first_some (whitespace_before_parameters_body tokens) [1 ..< length tokens]))"

subsection \<open>whitespace\_around\_operator\<close>

definition WHITESPACE_AROUND_OPERATOR_REGEX :: regex where
  \<comment> \<open>\<open>([^\w\s]*)\s*(\t|  )\s*([^\w\s]*)\<close>\<close>
  "WHITESPACE_AROUND_OPERATOR_REGEX =
     Seq (Grp 1 (Star (NCls (word_chars @ space_chars))))
    (Seq (Star (Cls space_chars))
    (Seq (Grp 2 (Alt (Cls [CHR 0x09]) (lit ''  '')))
    (Seq (Star (Cls space_chars))
         (Grp 3 (Star (NCls (word_chars @ space_chars)))))))"

definition whitespace_around_operator_body :: "match \<Rightarrow> check_result" where
  "whitespace_around_operator_body m =
     (let before = group m 1; whitespace = group m 2; after = group m 3;
          tab = (whitespace = [CHR 0x09]);
          offset = int (fst (span m 2))
      in if before \<in> set OPERATORS
         then Some (Off offset, if tab then ''E224 tab after operator''
                                else ''E222 multiple spaces after operator'')
         else if after \<in> set OPERATORS
         then Some (Off offset, if tab then ''E223 tab before operator''
                                else ''E221 multiple spaces before operator'')
         else None)"

definition whitespace_around_operator_check :: "string \<Rightarrow> check_result" where
  "whitespace_around_operator_check logical_line =
     first_some whitespace_around_operator_body
       (finditer WHITESPACE_AROUND_OPERATOR_REGEX logical_line)"

definition whitespace_around_operator_fix_step :: "string \<Rightarrow> match \<Rightarrow> string" where
  "whitespace_around_operator_fix_step logical_line m =
     (let before = group m 1; after = group m 3
      in if before \<in> set OPERATORS \<or> after \<in> set OPERATORS
         then slice_to logical_line (int (mt_start m)) @ before @ '' '' @ after @
              slice_from logical_line (int (mt_end m))
         else logical_line)"

definition whitespace_around_operator_fix :: "checker \<Rightarrow> string \<Rightarrow> checker" where
  "whitespace_around_operator_fix checker logical_line =
     checker\<lparr>self_logical_line :=
       foldl whitespace_around_operator_fix_step logical_line
         (rev (finditer WHITESPACE_AROUND_OPERATOR_REGEX logical_line))\<rparr>"

subsection \<open>missing\_whitespace\_around\_operator\<close>

text \<open>
  The local variables of the token loop. \<open>prev_text\<close> and \<open>prev_end\<close> are \<open>None\<close>
  together before the first token and are assigned together, so they are one optional
  pair here.
\<close>

record e225_state =
  v_parens :: int
  v_need_space :: bool
  v_prev_type :: token_type
  v_prev_text_end :: "(string \<times> position) option"
  v_space_insertions :: "int list"

definition e225_init :: e225_state where
  "e225_init = \<lparr>v_parens = 0, v_need_space = False, v_prev_type = OP, v_prev_text_end = None,
                 v_space_insertions = []\<rparr>"

definition e225_parens :: "string \<Rightarrow> int \<Rightarrow> int" where
  "e225_parens text n =
     (if text \<in> set [''('', ''lambda''] then n + 1 else if text = '')'' then n - 1 else n)"

definition e225_operator_needs_space :: "e225_state \<Rightarrow> string \<Rightarrow> bool" where
  \<comment> \<open>the value of \<open>v_need_space\<close> after the tests on an operator that follows a token\<close>
  "e225_operator_needs_space st text =
     (if text = ''='' \<and> v_parens st \<noteq> 0 then v_need_space st
      else if text \<in> set BINARY_OPERATORS then True
      else if text \<in> set UNARY_OPERATORS
      then (if v_prev_type st = OP
            then (if contains ''}])'' (case v_prev_text_end st of Some (t, e) \<Rightarrow> t | None \<Rightarrow> [])
                  then True else v_need_space st)
            else if v_prev_type st = NAME
            then (if (case v_prev_text_end st of Some (t, e) \<Rightarrow> t | None \<Rightarrow> [])
                       \<notin> set E225NOT_KEYWORDS
                  then True else v_need_space st)
            else True)
      else v_need_space st)"

definition e225_prev_end :: "e225_state \<Rightarrow> offset" where
  "e225_prev_end st = (case v_prev_text_end st of Some (t, e) \<Rightarrow> Pos e | None \<Rightarrow> NoOffset)"

definition e225_next :: "e225_state \<Rightarrow> token \<Rightarrow> e225_state" where
  \<comment> \<open>the assignments at the end of the loop body\<close>
  "e225_next st token =
     st\<lparr>v_prev_type := tok_type token, v_prev_text_end := Some (tok_text token, tok_end token)\<rparr>"

definition e225_check_step :: "e225_state \<Rightarrow> token \<Rightarrow> check_result + e225_state" where
  \<comment> \<open>one token of the loop of \<open>check\<close>: a returned result on the left, the variables
      for the next token on the right\<close>
  "e225_check_step st0 token =
     (if tok_type token \<in> set [NL, NEWLINE, ERRORTOKEN] then Inr st0
      else
        let st = st0\<lparr>v_parens := e225_parens (tok_text token) (v_parens st0)\<rparr>
        in if v_need_space st
           then (if Some (tok_start token) \<noteq> map_option snd (v_prev_text_end st)
                 then Inr (e225_next (st\<lparr>v_need_space := False\<rparr>) token)
                 else if tok_text token = ''>'' \<and> map_option fst (v_prev_text_end st) = Some ''<''
                 then Inr (e225_next st token)
                 else Inl (Some (e225_prev_end st, ''E225 missing whitespace around operator'')))
           else if tok_type token = OP \<and> v_prev_text_end st \<noteq> None
           then
             (let st' = st\<lparr>v_need_space := e225_operator_needs_space st (tok_text token)\<rparr>
              in if v_need_space st' \<and> Some (tok_start token) = map_option snd (v_prev_text_end st')
                 then Inl (Some (e225_prev_end st', ''E225 missing whitespace around operator''))
                 else Inr (e225_next st' token))
           else Inr (e225_next st token))"

fun e225_check_loop :: "e225_state \<Rightarrow> token list \<Rightarrow> check_result" where
  "e225_check_loop st [] = None"
| "e225_check_loop st (token # rest) =
     (case e225_check_step st token of
        Inl result \<Rightarrow> result
      | Inr st' \<Rightarrow> e225_check_loop st' rest)"

definition missing_whitespace_around_operator_check :: "token list \<Rightarrow> check_result" where
  "missing_whitespace_around_operator_check tokens = e225_check_loop e225_init tokens"

definition e225_fix_step :: "e225_state \<Rightarrow> token \<Rightarrow> error + e225_state" where
  \<comment> \<open>one token of the loop of \<open>fix\<close>\<close>
  "e225_fix_step st0 token =
     (if tok_type token \<in> set [NL, NEWLINE, ERRORTOKEN] then Inr st0
      else
        let st = st0\<lparr>v_parens := e225_parens (tok_text token) (v_parens st0)\<rparr>
        in if v_need_space st
           then (if Some (tok_start token) \<noteq> map_option snd (v_prev_text_end st)
                 then Inr (e225_next (st\<lparr>v_need_space := False\<rparr>) token)
                 else if tok_text token = ''>'' \<and> map_option fst (v_prev_text_end st) = Some ''<''
                 then Inr (e225_next st token)
                 else (case v_prev_text_end st of
                         None \<Rightarrow> Inl TypeError
                       | Some (t, e) \<Rightarrow>
                           Inr (e225_next
                                  (st\<lparr>v_space_insertions := v_space_insertions st @ [snd e],
                                      v_need_space := False\<rparr>) token)))
           else if tok_type token = OP \<and> v_prev_text_end st \<noteq> None
           then
             (let st' = st\<lparr>v_need_space := e225_operator_needs_space st (tok_text token)\<rparr>
              in if v_need_space st' \<and> Some (tok_start token) = map_option snd (v_prev_text_end st')
                 then Inr (e225_next
                             (st'\<lparr>v_space_insertions :=
                                    v_space_insertions st' @ [snd (tok_start token)]\<rparr>) token)
                 else Inr (e225_next st' token))
           else Inr (e225_next st token))"

fun e225_fix_loop :: "e225_state \<Rightarrow> token list \<Rightarrow> error + e225_state" where
  "e225_fix_loop st [] = Inr st"
| "e225_fix_loop st (token # rest) =
     (case e225_fix_step st token of
        Inl e \<Rightarrow> Inl e
      | Inr st' \<Rightarrow> e225_fix_loop st' rest)"

definition e225_insert :: "int \<Rightarrow> string \<Rightarrow> int \<Rightarrow> string" where
  \<comment> \<open>the body of the loop over \<open>reversed(v_space_insertions)\<close>\<close>
  "e225_insert index_offset logical_line index0 =
     (let index = index0 - index_offset
      in slice_to logical_line index @ '' '' @ slice_from logical_line index)"

definition missing_whitespace_around_operator_fix ::
  "checker \<Rightarrow> string \<Rightarrow> token list \<Rightarrow> error + checker" where
  "missing_whitespace_around_operator_fix checker logical_line tokens =
     (case e225_fix_loop e225_init tokens of
        Inl e \<Rightarrow> Inl e
      | Inr st \<Rightarrow>
          let index_offset =
                int (length (repeat (case self_indent_char checker of
                                       Some c \<Rightarrow> [c] | None \<Rightarrow> [])
                                    (self_indent_level checker)))
          in Inr (checker\<lparr>self_logical_line :=
                    foldl (e225_insert index_offset) logical_line
                      (rev (v_space_insertions st))\<rparr>))"

subsection \<open>whitespace\_around\_comma\<close>

definition whitespace_around_comma_body :: "string \<Rightarrow> char \<Rightarrow> check_result" where
  \<comment> \<open>the body of the loop for one \<open>separator\<close>\<close>
  "whitespace_around_comma_body line separator =
     (let found = find line (separator # ''  '')
      in if found > - 1
         then Some (Off (found + 1),
                    ''E241 multiple spaces after '' @ apostrophe @ [separator] @ apostrophe)
         else
           let found = find line [separator, CHR 0x09]
           in if found > - 1
              then Some (Off (found + 1),
                         ''E242 tab after '' @ apostrophe @ [separator] @ apostrophe)
              else None)"

definition whitespace_around_comma_check :: "string \<Rightarrow> check_result" where
  "whitespace_around_comma_check logical_line =
     first_some (whitespace_around_comma_body logical_line) '',;:''"

definition COMMA_SPACES_REGEX :: regex where
  \<comment> \<open>\<open>[,;:][ \t]+(?!#)\<close>\<close>
  "COMMA_SPACES_REGEX =
     Seq (Cls '',;:'') (Seq (plus (Cls [CHR '' '', CHR 0x09])) (NotAhead (Cls ''#'')))"

definition whitespace_around_comma_fix :: "checker \<Rightarrow> string \<Rightarrow> checker" where
  "whitespace_around_comma_fix checker logical_line =
     checker\<lparr>self_logical_line :=
       re_sub COMMA_SPACES_REGEX (\<lambda>m. strip (group0 m) @ '' '') logical_line\<rparr>"

subsection \<open>whitespace\_around\_named\_parameter\_equals\<close>

definition WHITESPACE_AROUND_NAMED_PARAMETER_REGEX :: regex where
  \<comment> \<open>\<open>[()]|\s=[^=]|[^=!<>]=\s\<close>\<close>
  "WHITESPACE_AROUND_NAMED_PARAMETER_REGEX =
     Alt (Cls ''()'')
    (Alt (Seq (Cls space_chars) (Seq (Cls ''='') (NCls ''='')))
         (Seq (NCls ''=!<>'') (Seq (Cls ''='') (Cls space_chars))))"

fun e251_check_loop :: "int \<Rightarrow> match list \<Rightarrow> check_result" where
  "e251_check_loop parens [] = None"
| "e251_check_loop parens (m # ms) =
     (if parens \<noteq> 0 \<and> length (group0 m) = 3
      then Some (Off (int (mt_start m)), ''E251 no spaces around keyword / parameter equals'')
      else e251_check_loop
             (if group0 m = ''('' then parens + 1
              else if group0 m = '')'' then parens - 1 else parens) ms)"

definition whitespace_around_named_parameter_equals_check :: "string \<Rightarrow> check_result" where
  "whitespace_around_named_parameter_equals_check logical_line =
     e251_check_loop 0 (finditer WHITESPACE_AROUND_NAMED_PARAMETER_REGEX logical_line)"

fun e251_fix_loop :: "int \<Rightarrow> string \<Rightarrow> match list \<Rightarrow> string" where
  "e251_fix_loop parens logical_line [] = logical_line"
| "e251_fix_loop parens logical_line (m # ms) =
     e251_fix_loop
       (if group0 m = '')'' then parens + 1
        else if group0 m = ''('' then parens - 1 else parens)
       (if parens \<noteq> 0 \<and> length (group0 m) = 3
        then slice_to logical_line (int (mt_start m)) @ strip (group0 m) @
             slice_from logical_line (int (mt_end m))
        else logical_line)
       ms"

definition whitespace_around_named_parameter_equals_fix :: "checker \<Rightarrow> string \<Rightarrow> checker" where
  "whitespace_around_named_parameter_equals_fix checker logical_line =
     checker\<lparr>self_logical_line :=
       e251_fix_loop 0 logical_line
         (rev (finditer WHITESPACE_AROUND_NAMED_PARAMETER_REGEX logical_line))\<rparr>"

subsection \<open>whitespace\_before\_inline\_comment\<close>

definition e261_step :: "position \<Rightarrow> token \<Rightarrow> check_result + position" where
  \<comment> \<open>one token of the loop: a returned result on the left, \<open>prev_end\<close> for the next
      token on the right\<close>
  "e261_step prev_end token =
     (if tok_type token = NL then Inr prev_end
      else if tok_type token = COMMENT
      then (if strip (slice_to (tok_line token) (snd (tok_start token))) = []
            then Inr prev_end
            else if fst prev_end = fst (tok_start token) \<and>
                    snd (tok_start token) < snd prev_end + 2
            then Inl (Some (Pos prev_end, ''E261 at least two spaces before inline comment''))
            else if (length (tok_text token) > 1 \<and> startswith (tok_text token) ''#  '') \<or>
                    \<not> startswith (tok_text token) ''# ''
            then Inl (Some (Pos (tok_start token),
                            ''E262 inline comment should start with '' @ apostrophe @ ''# '' @
                            apostrophe))
            else Inr prev_end)
      else Inr (tok_end token))"

fun e261_loop :: "position \<Rightarrow> token list \<Rightarrow> check_result" where
  "e261_loop prev_end [] = None"
| "e261_loop prev_end (token # rest) =
     (case e261_step prev_end token of
        Inl result \<Rightarrow> result
      | Inr prev_end' \<Rightarrow> e261_loop prev_end' rest)"

definition whitespace_before_inline_comment_check :: "token list \<Rightarrow> check_result" where
  "whitespace_before_inline_comment_check tokens = e261_loop (0, 0) tokens"

subsection \<open>imports\_on\_separate\_lines and compound\_statements\<close>

definition imports_on_separate_lines_check :: "string \<Rightarrow> check_result" where
  "imports_on_separate_lines_check logical_line =
     (let line = logical_line
      in if startswith line ''import ''
         then (let found = find line '',''
               in if found > - 1
                  then Some (Off found, ''E401 multiple imports on one line'')
                  else None)
         else None)"

definition LAMBDA_REGEX :: regex where
  \<comment> \<open>\<open>\blambda\b\<close>\<close>
  "LAMBDA_REGEX = Seq WordB (Seq (lit ''lambda'') WordB)"

definition compound_statements_colon :: "string \<Rightarrow> check_result" where
  \<comment> \<open>the first \<open>if\<close> of \<open>check\<close>\<close>
  "compound_statements_colon line =
     (let found = find line '':''
      in if - 1 < found \<and> found < int (length line) - 1
         then
           let before = slice_to line found
           in if count_char before (CHR ''{'') \<le> count_char before (CHR ''}'') \<and>
                 count_char before (CHR ''['') \<le> count_char before (CHR '']'') \<and>
                 re_search LAMBDA_REGEX before = None
              then Some (Off found, ''E701 multiple statements on one line (colon)'')
              else None
         else None)"

definition compound_statements_check :: "string \<Rightarrow> check_result" where
  "compound_statements_check logical_line =
     (case compound_statements_colon logical_line of
        Some r \<Rightarrow> Some r
      | None \<Rightarrow>
          let found = find logical_line '';''
          in if - 1 < found
             then Some (Off found, ''E702 multiple statements on one line (semicolon)'')
             else None)"

subsection \<open>Deprecated constructs\<close>

definition python_3000_has_key_check :: "string \<Rightarrow> check_result" where
  "python_3000_has_key_check logical_line =
     (let pos = find logical_line ''.has_key(''
      in if pos > - 1
         then Some (Off pos, ''W601 .has_key() is deprecated, use 'in'' @ apostrophe)
         else None)"

definition RAISE_COMMA_REGEX :: regex where
  \<comment> \<open>\<open>raise\s+(\w+)\s*,\s*(.*)\s*\<close>\<close>
  "RAISE_COMMA_REGEX =
     Seq (lit ''raise'')
    (Seq (plus (Cls space_chars))
    (Seq (Grp 1 (plus (Cls word_chars)))
    (Seq (Star (Cls space_chars))
    (Seq (Cls '','')
    (Seq (Star (Cls space_chars))
    (Seq (Grp 2 (Star (NCls [CHR 0x0A])))
         (Star (Cls space_chars))))))))"

definition python_3000_raise_comma_check :: "string \<Rightarrow> check_result" where
  "python_3000_raise_comma_check logical_line =
     (case re_match RAISE_COMMA_REGEX logical_line of
        Some m \<Rightarrow> Some (Off (int (fst (span m 1))), ''W602 deprecated form of raising exception'')
      | None \<Rightarrow> None)"

definition python_3000_raise_comma_fix :: "checker \<Rightarrow> string \<Rightarrow> checker" where
  "python_3000_raise_comma_fix checker logical_line =
     checker\<lparr>self_logical_line :=
       re_sub RAISE_COMMA_REGEX (\<lambda>m. ''raise '' @ group m 1 @ ''('' @ group m 2 @ '')'')
         logical_line\<rparr>"

definition python_3000_not_equal_check :: "string \<Rightarrow> check_result" where
  "python_3000_not_equal_check logical_line =
     (let pos = find logical_line ''<>''
      in if pos > - 1
         then Some (Off pos, ''W603 '' @ apostrophe @ ''<>'' @ apostrophe @
                             '' is deprecated, use '' @ apostrophe @ ''!='' @ apostrophe)
         else None)"

definition python_3000_backticks_check :: "string \<Rightarrow> check_result" where
  "python_3000_backticks_check logical_line =
     (let pos = find logical_line ''`''
      in if pos > - 1
         then Some (Off pos, ''W604 backticks are deprecated, use '' @ apostrophe @ ''repr()'' @
                             apostrophe)
         else None)"

section \<open>Helper functions\<close>

fun expand_indent_loop :: "int \<Rightarrow> string \<Rightarrow> int" where
  \<comment> \<open>the loop of \<open>expand_indent\<close>, from the current \<open>result\<close>\<close>
  "expand_indent_loop result [] = result"
| "expand_indent_loop result (char # line) =
     (if char = CHR 0x09
      then expand_indent_loop (result div TAB_SIZE * TAB_SIZE + TAB_SIZE) line
      else if char = CHR '' ''
      then expand_indent_loop (result + 1) line
      else result)"

definition expand_indent :: "string \<Rightarrow> int" where
  "expand_indent line = expand_indent_loop 0 line"

definition mute_string :: "string \<Rightarrow> string" where
  "mute_string text =
     (let start = 1;
          end = int (length text) - 1;
          start = (if endswith text [CHR 0x22] then start + find text [CHR 0x22]
                   else if endswith text [CHR 0x27] then start + find text [CHR 0x27]
                   else start);
          triple = (endswith text [CHR 0x22, CHR 0x22, CHR 0x22] \<or>
                    endswith text [CHR 0x27, CHR 0x27, CHR 0x27]);
          start = (if triple then start + 2 else start);
          end = (if triple then end - 2 else end)
      in slice_to text start @ repeat ''x'' (end - start) @ slice_from text end)"

section \<open>The registry of checks\<close>

text \<open>
  Each check is the one instance of its class; \<open>Check.all_checks\<close> lists them in the
  order of the class definitions. The methods of a check are functions of the class and
  of the checker attributes that the method names as its arguments.
\<close>

datatype check =
    Tabs_or_spaces | Tabs_obsolete | Trailing_whitespace | Trailing_blank_lines
  | Missing_newline | Maximum_line_length | Blank_lines | Extraneous_whitespace
  | Missing_whitespace | Indentation | Whitespace_before_parameters
  | Whitespace_around_operator | Missing_whitespace_around_operator
  | Whitespace_around_comma | Whitespace_around_named_parameter_equals
  | Whitespace_before_inline_comment | Imports_on_separate_lines | Compound_statements
  | Python_3000_has_key | Python_3000_raise_comma | Python_3000_not_equal
  | Python_3000_backticks

definition all_checks :: "check list" where
  "all_checks =
     [Tabs_or_spaces, Tabs_obsolete, Trailing_whitespace, Trailing_blank_lines,
      Missing_newline, Maximum_line_length, Blank_lines, Extraneous_whitespace,
      Missing_whitespace, Indentation, Whitespace_before_parameters,
      Whitespace_around_operator, Missing_whitespace_around_operator,
      Whitespace_around_comma, Whitespace_around_named_parameter_equals,
      Whitespace_before_inline_comment, Imports_on_separate_lines, Compound_statements,
      Python_3000_has_key, Python_3000_raise_comma, Python_3000_not_equal,
      Python_3000_backticks]"

fun check_name :: "check \<Rightarrow> string" where
  \<comment> \<open>\<open>check.__class__.__name__\<close>\<close>
  "check_name Tabs_or_spaces = ''tabs_or_spaces''"
| "check_name Tabs_obsolete = ''tabs_obsolete''"
| "check_name Trailing_whitespace = ''trailing_whitespace''"
| "check_name Trailing_blank_lines = ''trailing_blank_lines''"
| "check_name Missing_newline = ''missing_newline''"
| "check_name Maximum_line_length = ''maximum_line_length''"
| "check_name Blank_lines = ''blank_lines''"
| "check_name Extraneous_whitespace = ''extraneous_whitespace''"
| "check_name Missing_whitespace = ''missing_whitespace''"
| "check_name Indentation = ''indentation''"
| "check_name Whitespace_before_parameters = ''whitespace_before_parameters''"
| "check_name Whitespace_around_operator = ''whitespace_around_operator''"
| "check_name Missing_whitespace_around_operator = ''missing_whitespace_around_operator''"
| "check_name Whitespace_around_comma = ''whitespace_around_comma''"
| "check_name Whitespace_around_named_parameter_equals =
     ''whitespace_around_named_parameter_equals''"
| "check_name Whitespace_before_inline_comment = ''whitespace_before_inline_comment''"
| "check_name Imports_on_separate_lines = ''imports_on_separate_lines''"
| "check_name Compound_statements = ''compound_statements''"
| "check_name Python_3000_has_key = ''python_3000_has_key''"
| "check_name Python_3000_raise_comma = ''python_3000_raise_comma''"
| "check_name Python_3000_not_equal = ''python_3000_not_equal''"
| "check_name Python_3000_backticks = ''python_3000_backticks''"

fun codes :: "check \<Rightarrow> string list" where
  \<comment> \<open>the class attribute \<open>codes\<close>; \<open>whitespace_before_inline_comment\<close> sets \<open>CODES\<close>
      instead and inherits the empty list of \<open>Check\<close>\<close>
  "codes Tabs_or_spaces = [''E101'']"
| "codes Tabs_obsolete = [''W191'']"
| "codes Trailing_whitespace = [''W291'', ''W293'']"
| "codes Trailing_blank_lines = [''W391'']"
| "codes Missing_newline = [''W292'']"
| "codes Maximum_line_length = [''E501'']"
| "codes Blank_lines = [''E301'', ''E302'', ''E303'', ''E304'']"
| "codes Extraneous_whitespace = [''E201'', ''E202'', ''E203'']"
| "codes Missing_whitespace = [''E231'']"
| "codes Indentation = [''E111'', ''E112'', ''E113'']"
| "codes Whitespace_before_parameters = [''E211'']"
| "codes Whitespace_around_operator = [''E221'', ''E222'', ''E223'', ''E224'']"
| "codes Missing_whitespace_around_operator = [''E225'']"
| "codes Whitespace_around_comma = [''E241'', ''E242'']"
| "codes Whitespace_around_named_parameter_equals = [''E251'']"
| "codes Whitespace_before_inline_comment = []"
| "codes Imports_on_separate_lines = [''E401'']"
| "codes Compound_statements = [''E701'', ''E702'']"
| "codes Python_3000_has_key = [''W601'']"
| "codes Python_3000_raise_comma = [''W602'']"
| "codes Python_3000_not_equal = [''W603'']"
| "codes Python_3000_backticks = [''W604'']"

fun first_argument :: "check \<Rightarrow> string" where
  \<comment> \<open>the name of the first argument of \<open>check\<close> after \<open>self\<close>\<close>
  "first_argument Tabs_or_spaces = ''physical_line''"
| "first_argument Tabs_obsolete = ''physical_line''"
| "first_argument Trailing_whitespace = ''physical_line''"
| "first_argument Trailing_blank_lines = ''physical_line''"
| "first_argument Missing_newline = ''physical_line''"
| "first_argument Maximum_line_length = ''physical_line''"
| "first_argument c = ''logical_line''"

fun check_check :: "env \<Rightarrow> check \<Rightarrow> checker \<Rightarrow> error + check_result" where
  \<comment> \<open>\<open>check.check(*args)\<close>, the arguments read from the checker by their names\<close>
  "check_check e Tabs_or_spaces self =
     Inr (tabs_or_spaces_check (self_physical_line self) (self_indent_char self))"
| "check_check e Tabs_obsolete self = Inr (tabs_obsolete_check (self_physical_line self))"
| "check_check e Trailing_whitespace self =
     Inr (trailing_whitespace_check (self_physical_line self))"
| "check_check e Trailing_blank_lines self =
     Inr (trailing_blank_lines_check (self_physical_line self) (self_lines self)
            (self_line_number self))"
| "check_check e Missing_newline self = Inr (missing_newline_check (self_physical_line self))"
| "check_check e Maximum_line_length self =
     Inr (maximum_line_length_check e (self_physical_line self))"
| "check_check e Blank_lines self =
     Inr (blank_lines_check (self_logical_line self) (self_blank_lines self)
            (self_indent_level self) (self_line_number self) (self_previous_logical self)
            (self_previous_indent_level self) (self_blank_lines_before_comment self))"
| "check_check e Extraneous_whitespace self =
     extraneous_whitespace_check (self_logical_line self)"
| "check_check e Missing_whitespace self =
     Inr (missing_whitespace_check (self_logical_line self))"
| "check_check e Indentation self =
     Inr (indentation_check (self_logical_line self) (self_previous_logical self)
            (self_indent_char self) (self_indent_level self) (self_previous_indent_level self))"
| "check_check e Whitespace_before_parameters self =
     whitespace_before_parameters_check (self_tokens self)"
| "check_check e Whitespace_around_operator self =
     Inr (whitespace_around_operator_check (self_logical_line self))"
| "check_check e Missing_whitespace_around_operator self =
     Inr (missing_whitespace_around_operator_check (self_tokens self))"
| "check_check e Whitespace_around_comma self =
     Inr (whitespace_around_comma_check (self_logical_line self))"
| "check_check e Whitespace_around_named_parameter_equals self =
     Inr (whitespace_around_named_parameter_equals_check (self_logical_line self))"
| "check_check e Whitespace_before_inline_comment self =
     Inr (whitespace_before_inline_comment_check (self_tokens self))"
| "check_check e Imports_on_separate_lines self =
     Inr (imports_on_separate_lines_check (self_logical_line self))"
| "check_check e Compound_statements self =
     Inr (compound_statements_check (self_logical_line self))"
| "check_check e Python_3000_has_key self =
     Inr (python_3000_has_key_check (self_logical_line self))"
| "check_check e Python_3000_raise_comma self =
     Inr (python_3000_raise_comma_check (self_logical_line self))"
| "check_check e Python_3000_not_equal self =
     Inr (python_3000_not_equal_check (self_logical_line self))"
| "check_check e Python_3000_backticks self =
     Inr (python_3000_backticks_check (self_logical_line self))"

fun has_fix :: "check \<Rightarrow> bool" where
  \<comment> \<open>\<open>hasattr(check, 'fix')\<close>\<close>
  "has_fix Tabs_or_spaces = True"
| "has_fix Tabs_obsolete = True"
| "has_fix Trailing_whitespace = True"
| "has_fix Trailing_blank_lines = True"
| "has_fix Missing_newline = True"
| "has_fix Blank_lines = True"
| "has_fix Extraneous_whitespace = True"
| "has_fix Missing_whitespace = True"
| "has_fix Whitespace_around_operator = True"
| "has_fix Missing_whitespace_around_operator = True"
| "has_fix Whitespace_around_comma = True"
| "has_fix Whitespace_around_named_parameter_equals = True"
| "has_fix Python_3000_raise_comma = True"
| "has_fix c = False"

definition returned :: "checker \<times> string \<Rightarrow> error + checker \<times> string option" where
  \<comment> \<open>a \<open>fix\<close> that returns the fixed line\<close>
  "returned r = Inr (fst r, Some (snd r))"

fun check_fix ::
  "options \<Rightarrow> check \<Rightarrow> checker \<Rightarrow> checker \<Rightarrow> error + checker \<times> string option" where
  \<comment> \<open>\<open>check.fix(self, *args)\<close>: the checker as it is now, the arguments as they were
      read before \<open>check\<close> ran; the result is the changed checker and the value that
      \<open>fix\<close> returns\<close>
  "check_fix opts Tabs_or_spaces checker args =
     returned (tabs_or_spaces_fix opts checker (self_physical_line args))"
| "check_fix opts Tabs_obsolete checker args =
     returned (tabs_obsolete_fix opts checker (self_physical_line args))"
| "check_fix opts Trailing_whitespace checker args =
     returned (trailing_whitespace_fix opts checker (self_physical_line args))"
| "check_fix opts Trailing_blank_lines checker args =
     returned (trailing_blank_lines_fix opts checker (self_physical_line args))"
| "check_fix opts Missing_newline checker args =
     returned (missing_newline_fix opts checker (self_physical_line args))"
| "check_fix opts Blank_lines checker args =
     Inr (blank_lines_fix checker (self_logical_line args) (self_blank_lines args)
            (self_indent_level args) (self_line_number args) (self_previous_logical args)
            (self_previous_indent_level args) (self_blank_lines_before_comment args), None)"
| "check_fix opts Extraneous_whitespace checker args =
     Inr (extraneous_whitespace_fix checker (self_logical_line args), None)"
| "check_fix opts Missing_whitespace checker args =
     (case missing_whitespace_fix checker (self_logical_line args) of
        Inl err \<Rightarrow> Inl err
      | Inr c \<Rightarrow> Inr (c, None))"
| "check_fix opts Whitespace_around_operator checker args =
     Inr (whitespace_around_operator_fix checker (self_logical_line args), None)"
| "check_fix opts Missing_whitespace_around_operator checker args =
     (case missing_whitespace_around_operator_fix checker (self_logical_line args)
             (self_tokens args) of
        Inl err \<Rightarrow> Inl err
      | Inr c \<Rightarrow> Inr (c, None))"
| "check_fix opts Whitespace_around_comma checker args =
     Inr (whitespace_around_comma_fix checker (self_logical_line args), None)"
| "check_fix opts Whitespace_around_named_parameter_equals checker args =
     Inr (whitespace_around_named_parameter_equals_fix checker (self_logical_line args), None)"
| "check_fix opts Python_3000_raise_comma checker args =
     Inr (python_3000_raise_comma_fix checker (self_logical_line args), None)"
| "check_fix opts c checker args = Inl AttributeError"

definition registered :: "options \<Rightarrow> check \<Rightarrow> bool" where
  \<comment> \<open>the inner loop of \<open>find_checks\<close>: some code of the check is not ignored\<close>
  "registered opts c =
     list_ex (\<lambda>code. code = [] \<or> \<not> truthy (ignore_code opts code))
       (if codes c = [] then [[]] else codes c)"

definition find_checks :: "options \<Rightarrow> string \<Rightarrow> check list" where
  "find_checks opts argument_name =
     sort_key check_name
       (filter (\<lambda>c. startswith (first_argument c) argument_name \<and> registered opts c)
          all_checks)"

definition physical_checks :: "options \<Rightarrow> check list" where
  \<comment> \<open>\<open>options.physical_checks\<close>, as \<open>process_options\<close> sets it\<close>
  "physical_checks opts = find_checks opts ''physical_line''"

definition logical_checks :: "options \<Rightarrow> check list" where
  "logical_checks opts = find_checks opts ''logical_line''"

section \<open>The framework that runs the checks\<close>

definition BENCHMARK_KEYS :: "string list" where
  "BENCHMARK_KEYS = [''directories'', ''files'', ''logical lines'', ''physical lines'']"

definition initial_counters :: "(string \<times> int) list" where
  \<comment> \<open>\<open>dict.fromkeys(BENCHMARK_KEYS, 0)\<close>\<close>
  "initial_counters = map (\<lambda>key. (key, 0)) BENCHMARK_KEYS"

definition add_counter :: "string \<Rightarrow> int \<Rightarrow> checker \<Rightarrow> error + checker" where
  \<comment> \<open>\<open>options.counters[key] += n\<close>\<close>
  "add_counter key n self =
     (case map_of (counters self) key of
        None \<Rightarrow> Inl KeyError
      | Some v \<Rightarrow> Inr (self\<lparr>counters := AList.update key (v + n) (counters self)\<rparr>))"

definition new_checker :: "string \<Rightarrow> string list \<Rightarrow> (string \<times> int) list \<Rightarrow>
    (string \<times> string) list \<Rightarrow> string list \<Rightarrow> checker" where
  \<comment> \<open>a checker on the lines of a file, with the tables of \<open>options\<close> and what was
      printed so far; the attributes that \<open>__init__\<close> does not set have the values that
      \<open>check_all\<close> gives them, or are empty\<close>
  "new_checker fname file_lines cs ms out =
     \<lparr>self_filename = fname, self_lines = file_lines, self_fixed_physical_lines = [],
      self_line_number = 0, self_physical_line = [], self_indent_char = None,
      self_indent_level = 0, self_previous_indent_level = 0, self_previous_logical = [],
      self_blank_lines = 0, self_blank_lines_before_comment = 0, self_tokens = [],
      self_mapping = [], self_logical_line = [], self_muted_strings = [],
      self_comment = None, self_writer = [], self_file_errors = 0, self_expected = [],
      self_line_offset = 0, counters = cs, messages = ms, stdout = out\<rparr>"

definition Checker :: "string \<Rightarrow> string list \<Rightarrow> (string \<times> int) list \<Rightarrow>
    (string \<times> string) list \<Rightarrow> string list \<Rightarrow> error + checker" where
  \<comment> \<open>\<open>Checker(filename, lines)\<close>\<close>
  "Checker fname file_lines cs ms out =
     add_counter ''physical lines'' (int (length file_lines))
       (new_checker fname file_lines cs ms out)"

subsection \<open>report\_error\<close>

definition count_error :: "string \<Rightarrow> string \<Rightarrow> checker \<Rightarrow> checker" where
  \<comment> \<open>the update of \<open>options.counters\<close> and \<open>options.messages\<close>\<close>
  "count_error code text self =
     (case map_of (counters self) code of
        Some v \<Rightarrow> self\<lparr>counters := AList.update code (v + 1) (counters self)\<rparr>
      | None \<Rightarrow> self\<lparr>counters := AList.update code 1 (counters self),
                      messages := AList.update code (slice_from text 5) (messages self)\<rparr>)"

definition print_error :: "options \<Rightarrow> int \<Rightarrow> int \<Rightarrow> string \<Rightarrow> string \<Rightarrow> checker \<Rightarrow>
    error + checker" where
  \<comment> \<open>the messages of one reported error\<close>
  "print_error opts line_number offset text doc self0 =
     (let self = message (self_filename self0 @ '':'' @
                          str_int (self_line_offset self0 + line_number) @ '':'' @
                          str_int (offset + 1) @ '': '' @ text) self0
      in case (if opt_show_source opts
               then (case py_index (self_lines self) (line_number - 1) of
                       None \<Rightarrow> Inl IndexError
                     | Some line \<Rightarrow>
                         Inr (message (repeat '' '' offset @ ''^'') (message (rstrip line) self)))
               else Inr self) of
           Inl err \<Rightarrow> Inl err
         | Inr self' \<Rightarrow>
             if opt_show_pep8 opts
             then Inr (message (rstrip (dropWhile (\<lambda>c. c = CHR 0x0A) doc)) self')
             else Inr self')"

definition report_error :: "options \<Rightarrow> checker \<Rightarrow> int \<Rightarrow> int \<Rightarrow> string \<Rightarrow> string \<Rightarrow>
    error + checker" where
  \<comment> \<open>the last argument is \<open>check.__doc__\<close>\<close>
  "report_error opts self0 line_number offset text doc =
     (let code = slice_to text 4
      in if truthy (ignore_code opts code) then Inr self0
         else
           let self1 = (if opt_quiet opts = 1 \<and> self_file_errors self0 = 0
                        then message (self_filename self0) self0 else self0);
               self2 = count_error code text self1
           in if opt_quiet opts \<noteq> 0 \<or> code \<in> set (self_expected self2) then Inr self2
              else
                let self3 = self2\<lparr>self_file_errors := self_file_errors self2 + 1\<rparr>
                in if map_of (counters self3) code = Some 1 \<or> opt_repeat opts
                   then print_error opts line_number offset text doc self3
                   else Inr self3)"

subsection \<open>check\_physical\<close>

fun fold_err :: "('a \<Rightarrow> 's \<Rightarrow> error + 's) \<Rightarrow> 'a list \<Rightarrow> 's \<Rightarrow> error + 's" where
  \<comment> \<open>a \<open>for\<close> loop over a list whose body changes the state \<open>s\<close> or raises\<close>
  "fold_err f [] s = Inr s"
| "fold_err f (x # xs) s = (case f x s of Inl err \<Rightarrow> Inl err | Inr s' \<Rightarrow> fold_err f xs s')"

definition physical_fix :: "options \<Rightarrow> check \<Rightarrow> checker \<Rightarrow> string \<Rightarrow> checker \<Rightarrow>
    error + checker" where
  \<comment> \<open>what follows \<open>report_error\<close> in the loop of \<open>check_physical\<close>\<close>
  "physical_fix opts check args text self =
     (if opt_fix opts \<and> has_fix check
      then
        let code = slice_to text 4
        in if \<not> truthy (ignore_code opts code)
           then (case check_fix opts check self args of
                   Inl err \<Rightarrow> Inl err
                 | Inr (self', None) \<Rightarrow> Inl TypeError
                 | Inr (self', Some fixed) \<Rightarrow> Inr (self'\<lparr>self_physical_line := fixed\<rparr>))
           else Inr self
      else Inr self)"

definition physical_step :: "env \<Rightarrow> options \<Rightarrow> check \<Rightarrow> checker \<Rightarrow> error + checker" where
  \<comment> \<open>the body of the loop of \<open>check_physical\<close> for one check; \<open>args\<close> are the
      attributes as they are when the check is called\<close>
  "physical_step e opts check args =
     (case check_check e check args of
        Inl err \<Rightarrow> Inl err
      | Inr None \<Rightarrow> Inr args
      | Inr (Some (Off offset, text)) \<Rightarrow>
          (case report_error opts args (self_line_number args) offset text
                  (doc_of e (check_name check)) of
             Inl err \<Rightarrow> Inl err
           | Inr self \<Rightarrow> physical_fix opts check args text self)
      | Inr (Some (other, text)) \<Rightarrow> Inl TypeError)"

definition check_physical :: "env \<Rightarrow> options \<Rightarrow> checker \<Rightarrow> string \<Rightarrow> error + checker" where
  "check_physical e opts self0 line =
     (let self1 = self0\<lparr>self_physical_line := line\<rparr>;
          self2 = (case line of
                     [] \<Rightarrow> self1
                   | c # cs \<Rightarrow>
                       if self_indent_char self1 = None \<and> c \<in> set [CHR '' '', CHR 0x09]
                       then self1\<lparr>self_indent_char := Some c\<rparr>
                       else self1)
      in case fold_err (physical_step e opts) (physical_checks opts) self2 of
           Inl err \<Rightarrow> Inl err
         | Inr self \<Rightarrow>
             Inr (self\<lparr>self_fixed_physical_lines :=
                         self_fixed_physical_lines self @ [self_physical_line self]\<rparr>))"

definition readline_check_physical :: "env \<Rightarrow> options \<Rightarrow> checker \<Rightarrow> error + checker" where
  \<comment> \<open>one call by the tokenizer; the line it returns is not needed here\<close>
  "readline_check_physical e opts self0 =
     (let self = self0\<lparr>self_line_number := self_line_number self0 + 1\<rparr>
      in if self_line_number self > int (length (self_lines self)) then Inr self
         else (case py_index (self_lines self) (self_line_number self - 1) of
                 None \<Rightarrow> Inl IndexError
               | Some line \<Rightarrow> if line \<noteq> [] then check_physical e opts self line else Inr self))"

subsection \<open>build\_tokens\_line\<close>

definition fill_between :: "string list \<Rightarrow> token \<Rightarrow> token \<Rightarrow> string \<Rightarrow> error + string list" where
  \<comment> \<open>the block under \<open>if previous:\<close>: the pieces appended to \<open>logical\<close> before the
      text of the token (\<open>text\<close> is that text, muted for a string)\<close>
  "fill_between file_lines previous token text =
     (let end_line = fst (tok_end previous); end = snd (tok_end previous);
          start_line = fst (tok_start token); start = snd (tok_start token)
      in if end_line \<noteq> start_line
         then (case py_index file_lines (end_line - 1) of
                 None \<Rightarrow> Inl IndexError
               | Some row \<Rightarrow>
                   (case py_index row (end - 1) of
                      None \<Rightarrow> Inl IndexError
                    | Some prev_text \<Rightarrow>
                        if prev_text = CHR '','' \<or>
                           (prev_text \<notin> set ''{[('' \<and> \<not> contains ''}])'' text)
                        then Inr ['' '']
                        else Inr []))
         else if end \<noteq> start
         then (case py_index file_lines (end_line - 1) of
                 None \<Rightarrow> Inl IndexError
               | Some row \<Rightarrow> Inr [py_slice row end start])
         else Inr [])"

record build_state =
  b_self :: checker
  b_logical :: "string list"
  b_length :: int
  b_previous :: "token option"

definition build_step :: "token \<Rightarrow> build_state \<Rightarrow> error + build_state" where
  \<comment> \<open>the body of the loop of \<open>build_tokens_line\<close> for one token\<close>
  "build_step token st =
     (if tok_type token \<in> set SKIP_TOKENS then Inr st
      else
        let self1 = (if tok_type token = STRING
                     then (b_self st)\<lparr>self_muted_strings :=
                             self_muted_strings (b_self st) @ [tok_text token]\<rparr>
                     else b_self st);
            text = (if tok_type token = STRING then mute_string (tok_text token)
                    else tok_text token)
        in case (case b_previous st of
                   None \<Rightarrow> Inr []
                 | Some previous \<Rightarrow> fill_between (self_lines self1) previous token text) of
             Inl err \<Rightarrow> Inl err
           | Inr fill \<Rightarrow>
               let len = b_length st + int (length (concat fill))
               in Inr \<lparr>b_self = self1\<lparr>self_mapping := self_mapping self1 @ [(len, token)]\<rparr>,
                       b_logical = b_logical st @ fill @ [text],
                       b_length = len + int (length text),
                       b_previous = Some token\<rparr>)"

definition build_init :: "checker \<Rightarrow> build_state" where
  \<comment> \<open>the variables before the loop\<close>
  "build_init self0 =
     \<lparr>b_self = self0\<lparr>self_mapping := []\<rparr>, b_logical = [], b_length = 0,
      b_previous = None\<rparr>"

definition build_tokens_line :: "checker \<Rightarrow> error + checker" where
  "build_tokens_line self0 =
     (case fold_err build_step (self_tokens self0) (build_init self0) of
        Inl err \<Rightarrow> Inl err
      | Inr st \<Rightarrow>
          let self = (b_self st)\<lparr>self_logical_line := rstrip (concat (b_logical st))\<rparr>
          in if lstrip (self_logical_line self) = self_logical_line self then Inr self
             else Inl AssertionError)"

subsection \<open>check\_logical\<close>

definition physical_line_numbers_of :: "(int \<times> token) list \<Rightarrow> int list" where
  \<comment> \<open>the sorted list of the set of rows (from 0) on which tokens start or end\<close>
  "physical_line_numbers_of m =
     sort (remdups (concat (map (\<lambda>mapping_line.
             [fst (tok_start (snd mapping_line)) - 1, fst (tok_end (snd mapping_line)) - 1]) m)))"

definition translate_offset :: "(int \<times> token) list \<Rightarrow> offset \<Rightarrow> position option \<Rightarrow>
    position option" where
  \<comment> \<open>the values of \<open>(original_number, original_offset)\<close> after the offset of a result
      is resolved, from their values before (\<open>None\<close> while they are unassigned); an
      offset that is \<open>None\<close> compares less than every integer in Python 2\<close>
  "translate_offset m offset original =
     (case offset of
        Pos p \<Rightarrow> Some p
      | Off n \<Rightarrow>
          foldl (\<lambda>orig entry.
                   if n \<ge> fst entry
                   then Some (fst (tok_start (snd entry)),
                              snd (tok_start (snd entry)) + n - fst entry)
                   else orig) original m
      | NoOffset \<Rightarrow> original)"

definition logical_fix :: "options \<Rightarrow> check \<Rightarrow> checker \<Rightarrow> string \<Rightarrow> checker \<Rightarrow>
    error + checker" where
  \<comment> \<open>what follows \<open>report_error\<close> in the loop of \<open>check_logical\<close>\<close>
  "logical_fix opts check args text self =
     (if opt_fix opts \<and> has_fix check
      then
        let code = slice_to text 4
        in if \<not> truthy (ignore_code opts code)
           then (case check_fix opts check self args of
                   Inl err \<Rightarrow> Inl err
                 | Inr (self', None) \<Rightarrow> Inr self'
                 | Inr (self', Some result) \<Rightarrow> Inr (self'\<lparr>self_logical_line := result\<rparr>))
           else Inr self
      else Inr self)"

definition logical_step :: "env \<Rightarrow> options \<Rightarrow> check \<Rightarrow> checker \<times> position option \<Rightarrow>
    error + checker \<times> position option" where
  \<comment> \<open>the body of the loop of \<open>check_logical\<close> for one check; the second component
      holds the local variables \<open>original_number\<close> and \<open>original_offset\<close>\<close>
  "logical_step e opts check st =
     (let args = fst st
      in case check_check e check args of
           Inl err \<Rightarrow> Inl err
         | Inr None \<Rightarrow> Inr st
         | Inr (Some (offset, text)) \<Rightarrow>
             (case translate_offset (self_mapping args) offset (snd st) of
                None \<Rightarrow> Inl UnboundLocalError
              | Some (original_number, original_offset) \<Rightarrow>
                  (case report_error opts args original_number original_offset text
                          (doc_of e (check_name check)) of
                     Inl err \<Rightarrow> Inl err
                   | Inr self \<Rightarrow>
                       (case logical_fix opts check args text self of
                          Inl err \<Rightarrow> Inl err
                        | Inr self' \<Rightarrow> Inr (self', Some (original_number, original_offset))))))"

partial_function (option) split_modifiers :: "string \<Rightarrow> string \<Rightarrow> (string \<times> string) option"
  where
  \<comment> \<open>the \<open>while\<close> loop that moves the letters before the quotes to \<open>str_modifiers\<close>;
      it does not end on a string without a quote\<close>
  "split_modifiers str_modifiers muted_string =
     (if slice_to muted_string 1 \<notin> set [[CHR 0x22], [CHR 0x27]]
      then split_modifiers (str_modifiers @ slice_to muted_string 1) (slice_from muted_string 1)
      else Some (str_modifiers, muted_string))"

declare split_modifiers.simps [code]

definition restore_string :: "string \<Rightarrow> int \<times> string \<Rightarrow> error + int \<times> string" where
  \<comment> \<open>the body of the loop over \<open>self.muted_strings\<close>, on \<open>(str_index, logical_line)\<close>\<close>
  "restore_string muted_string0 st =
     (case split_modifiers [] muted_string0 of
        None \<Rightarrow> Inl Nontermination
      | Some (str_modifiers, muted_string1) \<Rightarrow>
          let quotes = (if slice_to muted_string1 3 = concat (replicate 3 (slice_to muted_string1 1))
                        then slice_to muted_string1 3 else slice_to muted_string1 1);
              xs = slice_to muted_string1 (int (length quotes)) @
                   repeat ''x'' (int (length muted_string1) - 2 * int (length quotes)) @
                   slice_from muted_string1 (- int (length quotes));
              muted_string = str_modifiers @ muted_string1;
              found = find (slice_from (snd st) (fst st)) (str_modifiers @ xs)
          in if found < 0 then Inl AttributeError
             else
               let str_index = fst st + found
               in Inr (str_index + int (length muted_string),
                       slice_to (snd st) str_index @ muted_string @
                       slice_from (snd st) (str_index + int (length muted_string))))"

definition writer_write :: "string \<Rightarrow> checker \<Rightarrow> checker" where
  \<comment> \<open>\<open>self.writer.write(s)\<close>\<close>
  "writer_write s self = self\<lparr>self_writer := self_writer self @ s\<rparr>"

definition write_fixed :: "int \<Rightarrow> checker \<Rightarrow> error + checker" where
  \<comment> \<open>the body of the loop that writes the fixed physical lines\<close>
  "write_fixed line_number self =
     (case py_index (self_fixed_physical_lines self) line_number of
        None \<Rightarrow> Inl IndexError
      | Some line \<Rightarrow> Inr (writer_write line self))"

definition write_logical :: "int list \<Rightarrow> checker \<Rightarrow> error + checker" where
  \<comment> \<open>the block under \<open>if options.fix:\<close> at the end of \<open>check_logical\<close>\<close>
  "write_logical physical_line_numbers self0 =
     (if length physical_line_numbers = 1
      then (case fold_err restore_string (self_muted_strings self0)
                    (0, self_logical_line self0) of
              Inl err \<Rightarrow> Inl err
            | Inr (str_index, line) \<Rightarrow>
                let self1 = self0\<lparr>self_logical_line := line\<rparr>;
                    self2 = writer_write (repeat [CHR 0x0A] (self_blank_lines self1)) self1;
                    self3 = writer_write (repeat (case self_indent_char self2 of
                                             Some c \<Rightarrow> [c] | None \<Rightarrow> ''    '')
                                          (self_indent_level self2)) self2;
                    self4 = writer_write (self_logical_line self3) self3;
                    self5 = self4\<lparr>self_comment := None\<rparr>
                in Inr (writer_write [CHR 0x0A] self5))
      else (case physical_line_numbers of
              [] \<Rightarrow> Inl IndexError
            | first # others \<Rightarrow>
                fold_err write_fixed [first .. last physical_line_numbers]
                  (writer_write (repeat [CHR 0x0A] (self_blank_lines self0)) self0)))"

definition check_logical :: "env \<Rightarrow> options \<Rightarrow> checker \<Rightarrow> error + checker" where
  "check_logical e opts self0 =
     (case add_counter ''logical lines'' 1 self0 of
        Inl err \<Rightarrow> Inl err
      | Inr self1 \<Rightarrow>
     (case build_tokens_line (self1\<lparr>self_muted_strings := []\<rparr>) of
        Inl err \<Rightarrow> Inl err
      | Inr self2 \<Rightarrow>
     (case self_mapping self2 of
        [] \<Rightarrow> Inl IndexError
      | first_mapping # others \<Rightarrow>
     (case py_index (self_lines self2) (fst (tok_start (snd first_mapping)) - 1) of
        None \<Rightarrow> Inl IndexError
      | Some first_line \<Rightarrow>
          let indent = slice_to first_line (snd (tok_start (snd first_mapping)));
              self3 = self2\<lparr>self_previous_indent_level := self_indent_level self2\<rparr>;
              self4 = self3\<lparr>self_indent_level := expand_indent indent\<rparr>
          in case fold_err (logical_step e opts) (logical_checks opts) (self4, None) of
               Inl err \<Rightarrow> Inl err
             | Inr (self5, original) \<Rightarrow>
                 (case (if opt_fix opts
                        then write_logical (physical_line_numbers_of (self_mapping self5)) self5
                        else Inr self5) of
                    Inl err \<Rightarrow> Inl err
                  | Inr self6 \<Rightarrow>
                      Inr (self6\<lparr>self_previous_logical := self_logical_line self6\<rparr>))))))"

subsection \<open>check\_all\<close>

text \<open>
  \<open>tokenize.generate_tokens(self.readline_check_physical)\<close> is a generator outside
  pep8.py. What it does while \<open>check_all\<close> consumes it is an input of the model, a list
  of events in their order: it calls \<open>readline_check_physical\<close> for its next line,
  it yields a token, or it raises.
\<close>

datatype event = ReadLine | Yield token | Raise

definition truthy_str :: "string option \<Rightarrow> bool" where
  \<comment> \<open>the truth value of a string or \<open>None\<close>\<close>
  "truthy_str s = (case s of None \<Rightarrow> False | Some t \<Rightarrow> t \<noteq> [])"

definition count_parens :: "token \<Rightarrow> int \<Rightarrow> int" where
  \<comment> \<open>the two updates of the local variable \<open>parens\<close>\<close>
  "count_parens token parens0 =
     (let parens1 = (if tok_type token = OP \<and> contains ''([{'' (tok_text token)
                     then parens0 + 1 else parens0)
      in if tok_type token = OP \<and> contains ''}])'' (tok_text token)
         then parens1 - 1 else parens1)"

definition token_newline :: "env \<Rightarrow> options \<Rightarrow> token \<Rightarrow> int \<Rightarrow> checker \<Rightarrow> error + checker"
  where
  \<comment> \<open>\<open>if token_type == tokenize.NEWLINE and not parens:\<close>\<close>
  "token_newline e opts token parens self =
     (if tok_type token = NEWLINE \<and> parens = 0
      then (case check_logical e opts self of
              Inl err \<Rightarrow> Inl err
            | Inr self' \<Rightarrow>
                Inr (self'\<lparr>self_blank_lines := 0, self_blank_lines_before_comment := 0,
                          self_tokens := []\<rparr>))
      else Inr self)"

definition token_nl :: "options \<Rightarrow> token \<Rightarrow> int \<Rightarrow> checker \<Rightarrow> checker" where
  \<comment> \<open>\<open>if token_type == tokenize.NL and not parens:\<close>\<close>
  "token_nl opts token parens self0 =
     (if tok_type token = NL \<and> parens = 0
      then
        let self1 = (if truthy_str (self_comment self0) \<and> opt_fix opts
                     then (writer_write
                             ((case self_comment self0 of Some c \<Rightarrow> c | None \<Rightarrow> []) @
                              [CHR 0x0A])
                             (writer_write
                                (repeat [CHR 0x0A] (self_blank_lines_before_comment self0))
                                self0))
                          \<lparr>self_comment := None, self_blank_lines_before_comment := 0\<rparr>
                     else self0);
            self2 = (if length (self_tokens self1) \<le> 1
                     then self1\<lparr>self_blank_lines := self_blank_lines self1 + 1\<rparr>
                     else self1)
        in self2\<lparr>self_tokens := []\<rparr>
      else self0)"

definition token_comment :: "token \<Rightarrow> int \<Rightarrow> checker \<Rightarrow> checker" where
  \<comment> \<open>\<open>if token_type == tokenize.COMMENT:\<close>\<close>
  "token_comment token parens self0 =
     (if tok_type token = COMMENT
      then
        let source_line = tok_line token;
            token_start = snd (tok_start token);
            self1 = (if strip (slice_to source_line token_start) = []
                     then self0\<lparr>self_blank_lines_before_comment :=
                                  max (self_blank_lines self0)
                                      (self_blank_lines_before_comment self0),
                                self_blank_lines := 0\<rparr>
                     else self0);
            self2 = (if endswith (tok_text token) [CHR 0x0A] \<and> parens = 0
                     then self1\<lparr>self_tokens := []\<rparr> else self1)
        in if length (self_tokens self2) = 1
           then self2\<lparr>self_comment := Some (rstrip source_line)\<rparr>
           else self2
      else self0)"

definition process_token :: "env \<Rightarrow> options \<Rightarrow> token \<Rightarrow> checker \<times> int \<Rightarrow>
    error + checker \<times> int" where
  \<comment> \<open>the body of the loop of \<open>check_all\<close> for one token, on the checker and the
      local variable \<open>parens\<close>\<close>
  "process_token e opts token st =
     (let self1 = (fst st)\<lparr>self_tokens := self_tokens (fst st) @ [token]\<rparr>;
          parens = count_parens token (snd st)
      in case token_newline e opts token parens self1 of
           Inl err \<Rightarrow> Inl err
         | Inr self2 \<Rightarrow> Inr (token_comment token parens (token_nl opts token parens self2), parens))"

definition process_event :: "env \<Rightarrow> options \<Rightarrow> event \<Rightarrow> checker \<times> int \<Rightarrow>
    error + checker \<times> int" where
  "process_event e opts ev st =
     (case ev of
        ReadLine \<Rightarrow>
          (case readline_check_physical e opts (fst st) of
             Inl err \<Rightarrow> Inl err
           | Inr self \<Rightarrow> Inr (self, snd st))
      | Yield token \<Rightarrow> process_token e opts token st
      | Raise \<Rightarrow> Inl TokenError)"

definition check_all :: "env \<Rightarrow> options \<Rightarrow> checker \<Rightarrow> string list \<Rightarrow> int \<Rightarrow> event list \<Rightarrow>
    error + checker" where
  \<comment> \<open>\<open>self.check_all(expected, line_offset)\<close>; the result is the checker at the end,
      whose \<open>file_errors\<close> the method returns and whose \<open>writer\<close> holds what it writes
      to the file \<open>write_filename\<close> when fixing is on\<close>
  "check_all e opts self0 expected line_offset events =
     (case fold_err (process_event e opts) events
             (self0\<lparr>self_comment := None, self_expected := expected,
                     self_line_offset := line_offset, self_line_number := 0,
                     self_file_errors := 0, self_indent_char := None, self_indent_level := 0,
                     self_previous_logical := [], self_blank_lines := 0,
                     self_blank_lines_before_comment := 0, self_tokens := [],
                     self_writer := []\<rparr>, 0) of
        Inl err \<Rightarrow> Inl err
      | Inr (self, parens) \<Rightarrow> Inr self)"

definition input_file :: "env \<Rightarrow> options \<Rightarrow> string \<Rightarrow> string list \<Rightarrow> event list \<Rightarrow>
    error + checker" where
  \<comment> \<open>\<open>input_file(filename)\<close> after \<open>process_options\<close>: a new checker on the lines of
      the file, with fresh counters\<close>
  "input_file e opts fname file_lines events =
     (case Checker fname file_lines initial_counters [] [] of
        Inl err \<Rightarrow> Inl err
      | Inr self \<Rightarrow> check_all e opts self [] 0 events)"

section \<open>A UTF-8 codec for concrete runs\<close>

text \<open>
  The checks are stated for every codec \<open>utf8_length\<close>. Concrete runs use this one: the
  well-formed byte sequences of UTF-8 as Python 2 accepts them (encoded surrogates
  included), one character counted for each sequence.
\<close>

definition continuation :: "char \<Rightarrow> bool" where
  "continuation c = (0x80 \<le> (of_char c :: nat) \<and> (of_char c :: nat) \<le> 0xBF)"

definition utf8_width :: "string \<Rightarrow> nat" where
  \<comment> \<open>the number of bytes of the well-formed sequence at the head of the string,
      or 0 when there is none\<close>
  "utf8_width s =
     (case s of
        [] \<Rightarrow> 0
      | b # bs \<Rightarrow>
          let n = (of_char b :: nat) in
          if n < 0x80 then 1
          else if 0xC2 \<le> n \<and> n \<le> 0xDF
          then (case bs of c1 # r \<Rightarrow> if continuation c1 then 2 else 0 | _ \<Rightarrow> 0)
          else if 0xE0 \<le> n \<and> n \<le> 0xEF
          then (case bs of
                  c1 # c2 # r \<Rightarrow>
                    if continuation c1 \<and> continuation c2 \<and>
                       \<not> (n = 0xE0 \<and> (of_char c1 :: nat) < 0xA0)
                    then 3 else 0
                | _ \<Rightarrow> 0)
          else if 0xF0 \<le> n \<and> n \<le> 0xF4
          then (case bs of
                  c1 # c2 # c3 # r \<Rightarrow>
                    if continuation c1 \<and> continuation c2 \<and> continuation c3 \<and>
                       \<not> (n = 0xF0 \<and> (of_char c1 :: nat) < 0x90) \<and>
                       \<not> (n = 0xF4 \<and> (of_char c1 :: nat) > 0x8F)
                    then 4 else 0
                | _ \<Rightarrow> 0)
          else 0)"

function utf8_characters :: "string \<Rightarrow> int option" where
  "utf8_characters s =
     (if s = [] then Some 0
      else if utf8_width s = 0 then None
      else map_option (\<lambda>k. k + 1) (utf8_characters (drop (utf8_width s) s)))"
  by pat_completeness auto
termination
  by (relation "measure length") auto

declare utf8_characters.simps [simp del]

definition python_env :: env where
  \<comment> \<open>this codec, and no docstrings\<close>
  "python_env = \<lparr>doc_of = (\<lambda>name. []), utf8_length = utf8_characters\<rparr>"

section \<open>Notions of the specification\<close>

text \<open>
  Definitions that follow the words of the specification, to be compared with the
  functions above.
\<close>

definition closing_bracket :: "string \<Rightarrow> bool" where
  \<comment> \<open>the closing brackets that the specification names: \<open>)\<close>, \<open>]\<close> and \<open>}\<close>\<close>
  "closing_bracket text = (text \<in> {'')'', '']'', ''}''})"

definition needs_space_as_claimed :: "string \<Rightarrow> nat \<Rightarrow> bool" where
  \<comment> \<open>the words of the specification: the character at \<open>i\<close> is a comma, semicolon
      or colon, the character after it is neither a space nor a tab, and neither
      exception applies: a colon with more \<open>[\<close> than \<open>]\<close> before it, a comma whose
      next character is a closing bracket\<close>
  "needs_space_as_claimed line i =
     (i + 1 < length line \<and>
      line ! i \<in> {CHR '','', CHR '';'', CHR '':''} \<and>
      line ! (i + 1) \<notin> {CHR '' '', CHR 0x09} \<and>
      \<not> (line ! i = CHR '':'' \<and>
         count_char (take i line) (CHR ''['') > count_char (take i line) (CHR '']'')) \<and>
      \<not> (line ! i = CHR '','' \<and> closing_bracket [line ! (i + 1)]))"

definition needs_space :: "string \<Rightarrow> nat \<Rightarrow> bool" where
  \<comment> \<open>the same notion with the exception for a comma narrowed to the two closing
      brackets of a tuple and of a list: a comma before \<open>)\<close> or \<open>]\<close>\<close>
  "needs_space line i =
     (i + 1 < length line \<and>
      line ! i \<in> {CHR '','', CHR '';'', CHR '':''} \<and>
      line ! (i + 1) \<notin> {CHR '' '', CHR 0x09} \<and>
      \<not> (line ! i = CHR '':'' \<and>
         count_char (take i line) (CHR ''['') > count_char (take i line) (CHR '']'')) \<and>
      \<not> (line ! i = CHR '','' \<and> line ! (i + 1) \<in> {CHR '')'', CHR '']''}))"

definition next_tab_stop :: "int \<Rightarrow> int" where
  \<comment> \<open>the next multiple of the tab width after a column\<close>
  "next_tab_stop column = (column div TAB_SIZE + 1) * TAB_SIZE"

definition indent_width :: "string \<Rightarrow> int" where
  \<comment> \<open>over the leading spaces and tabs only: a space adds 1, a tab goes to the next
      multiple of the tab width\<close>
  "indent_width line =
     foldl (\<lambda>column c. if c = CHR '' '' then column + 1 else next_tab_stop column) 0
       (takeWhile (\<lambda>c. c = CHR '' '' \<or> c = CHR 0x09) line)"

definition kept :: "token \<Rightarrow> bool" where
  \<comment> \<open>a token that contributes to the logical line\<close>
  "kept token = (tok_type token \<notin> set SKIP_TOKENS)"


definition contributed_text :: "token \<Rightarrow> string" where
  \<comment> \<open>what a kept token adds to the logical line: its text, muted for a string\<close>
  "contributed_text token =
     (if tok_type token = STRING then mute_string (tok_text token) else tok_text token)"

definition opening_bracket :: "char \<Rightarrow> bool" where
  "opening_bracket c = (c \<in> {CHR ''('', CHR ''['', CHR ''{''})"

definition join_text :: "string \<Rightarrow> token \<Rightarrow> token \<Rightarrow> string" where
  \<comment> \<open>what the specification puts between two consecutive kept tokens, where \<open>row\<close> is
      the source row on which the first of them ends: on different rows one space after
      a comma, or when the first token does not end with an opening bracket and the
      second is not a closing bracket, and nothing otherwise; on the same row the source
      text between them\<close>
  "join_text row previous token =
     (if fst (tok_end previous) \<noteq> fst (tok_start token)
      then (if last (tok_text previous) = CHR '','' \<or>
               (\<not> opening_bracket (last (tok_text previous)) \<and>
                \<not> closing_bracket (contributed_text token))
            then '' '' else [])
      else py_slice row (snd (tok_end previous)) (snd (tok_start token)))"

definition source_row :: "string list \<Rightarrow> token \<Rightarrow> string" where
  \<comment> \<open>the source row on which a token ends (empty when the file has no such row)\<close>
  "source_row file_lines previous =
     (case py_index file_lines (fst (tok_end previous) - 1) of Some row \<Rightarrow> row | None \<Rightarrow> [])"

fun joined_text :: "string list \<Rightarrow> token list \<Rightarrow> string" where
  \<comment> \<open>the text that the specification gives to a list of kept tokens: the text of each
      token, with \<open>join_text\<close> between every two consecutive tokens\<close>
  "joined_text file_lines [] = []"
| "joined_text file_lines [token] = contributed_text token"
| "joined_text file_lines (previous # token # tokens) =
     contributed_text previous @ join_text (source_row file_lines previous) previous token @
     joined_text file_lines (token # tokens)"

definition positioned :: "string list \<Rightarrow> token \<Rightarrow> token \<Rightarrow> bool" where
  \<comment> \<open>what holds of two consecutive kept tokens that a tokenizer yields on the lines of
      the file: the source row on which the first ends exists, the source character
      before its end is the last character of its text when the second starts on
      another row, and the text of the second is not empty and not a run of two or three
      closing brackets\<close>
  "positioned file_lines previous token =
     ((case py_index file_lines (fst (tok_end previous) - 1) of
         None \<Rightarrow> False
       | Some row \<Rightarrow>
           fst (tok_end previous) = fst (tok_start token) \<or>
           py_index row (snd (tok_end previous) - 1) = Some (last (tok_text previous))) \<and>
      contributed_text token \<notin> {[], ''}]'', ''])'', ''}])''})"

fun well_positioned :: "string list \<Rightarrow> token list \<Rightarrow> bool" where
  \<comment> \<open>every two consecutive tokens of the list are \<open>positioned\<close>\<close>
  "well_positioned file_lines (previous # token # tokens) =
     (positioned file_lines previous token \<and> well_positioned file_lines (token # tokens))"
| "well_positioned file_lines tokens = True"

section \<open>Concrete inputs\<close>

text \<open>
  Source files with the events of Python's tokenizer on them, and checker states, for the
  concrete runs below.
\<close>

definition indented_pass :: checker where
  \<comment> \<open>the checker of the file \<open>if x:\<close>, \<open><tab> pass\<close> when the NEWLINE token of
      line 2 arrives\<close>
  "indented_pass =
     (new_checker ''t.py'' [''if x:'' @ [CHR 0x0A], [CHR 0x09] @ '' pass'' @ [CHR 0x0A]]
        initial_counters [] [])
     \<lparr>self_tokens :=
        [Token INDENT ([CHR 0x09] @ '' '') (2, 0) (2, 2) ([CHR 0x09] @ '' pass'' @ [CHR 0x0A]),
         Token NAME ''pass'' (2, 2) (2, 6) ([CHR 0x09] @ '' pass'' @ [CHR 0x0A]),
         Token NEWLINE [CHR 0x0A] (2, 6) (2, 7) ([CHR 0x09] @ '' pass'' @ [CHR 0x0A])],
      self_line_number := 2, self_indent_char := Some (CHR 0x09),
      self_previous_logical := ''if x:''\<rparr>"

definition two_defs_lines :: "string list" where
  \<comment> \<open>the lines of the file \<open>def a():\\n    pass\\ndef b():\\n    pass\\n\<close>\<close>
  "two_defs_lines =
     [''def a():'' @ [CHR 0x0A], ''    pass'' @ [CHR 0x0A], ''def b():'' @ [CHR 0x0A], ''    pass'' @ [CHR 0x0A]]"

definition two_defs_events :: "event list" where
  \<comment> \<open>what the tokenizer does on this file\<close>
  "two_defs_events =
    [ReadLine,
     Yield (Token NAME (''def'') (1, 0) (1, 3) (''def a():'' @ [CHR 0x0A])),
     Yield (Token NAME (''a'') (1, 4) (1, 5) (''def a():'' @ [CHR 0x0A])),
     Yield (Token OP (''('') (1, 5) (1, 6) (''def a():'' @ [CHR 0x0A])),
     Yield (Token OP ('')'') (1, 6) (1, 7) (''def a():'' @ [CHR 0x0A])),
     Yield (Token OP ('':'') (1, 7) (1, 8) (''def a():'' @ [CHR 0x0A])),
     Yield (Token NEWLINE ([CHR 0x0A]) (1, 8) (1, 9) (''def a():'' @ [CHR 0x0A])),
     ReadLine,
     Yield (Token INDENT (''    '') (2, 0) (2, 4) (''    pass'' @ [CHR 0x0A])),
     Yield (Token NAME (''pass'') (2, 4) (2, 8) (''    pass'' @ [CHR 0x0A])),
     Yield (Token NEWLINE ([CHR 0x0A]) (2, 8) (2, 9) (''    pass'' @ [CHR 0x0A])),
     ReadLine,
     Yield (Token DEDENT ([]) (3, 0) (3, 0) (''def b():'' @ [CHR 0x0A])),
     Yield (Token NAME (''def'') (3, 0) (3, 3) (''def b():'' @ [CHR 0x0A])),
     Yield (Token NAME (''b'') (3, 4) (3, 5) (''def b():'' @ [CHR 0x0A])),
     Yield (Token OP (''('') (3, 5) (3, 6) (''def b():'' @ [CHR 0x0A])),
     Yield (Token OP ('')'') (3, 6) (3, 7) (''def b():'' @ [CHR 0x0A])),
     Yield (Token OP ('':'') (3, 7) (3, 8) (''def b():'' @ [CHR 0x0A])),
     Yield (Token NEWLINE ([CHR 0x0A]) (3, 8) (3, 9) (''def b():'' @ [CHR 0x0A])),
     ReadLine,
     Yield (Token INDENT (''    '') (4, 0) (4, 4) (''    pass'' @ [CHR 0x0A])),
     Yield (Token NAME (''pass'') (4, 4) (4, 8) (''    pass'' @ [CHR 0x0A])),
     Yield (Token NEWLINE ([CHR 0x0A]) (4, 8) (4, 9) (''    pass'' @ [CHR 0x0A])),
     ReadLine,
     Yield (Token DEDENT ([]) (5, 0) (5, 0) ([])),
     Yield (Token ENDMARKER ([]) (5, 0) (5, 0) ([]))]"

definition ignore_E302 :: options where
  \<comment> \<open>the options of a run with \<open>--ignore=E302\<close>\<close>
  "ignore_E302 = default_options\<lparr>opt_ignore := [''E302'']\<rparr>"

definition stray_dollar_lines :: "string list" where
  \<comment> \<open>a file of two lines: a backslash alone, then a space and a dollar sign\<close>
  "stray_dollar_lines =
     [[CHR 0x5C, CHR 0x0A], '' $'' @ [CHR 0x0A]]"

definition stray_dollar_events :: "event list" where
  \<comment> \<open>what the tokenizer does on this file\<close>
  "stray_dollar_events =
    [ReadLine,
     ReadLine,
     Yield (Token ERRORTOKEN ('' '') (2, 0) (2, 1) ('' $'' @ [CHR 0x0A])),
     Yield (Token ERRORTOKEN (''$'') (2, 1) (2, 2) ('' $'' @ [CHR 0x0A])),
     Yield (Token NEWLINE ([CHR 0x0A]) (2, 2) (2, 3) ('' $'' @ [CHR 0x0A])),
     ReadLine,
     Yield (Token ENDMARKER ([]) (3, 0) (3, 0) ([]))]"

definition one_tab_lines :: "string list" where
  \<comment> \<open>a file whose second line is indented with one tab\<close>
  "one_tab_lines =
     [''if x:'' @ [CHR 0x0A], [CHR 0x09] @ ''pass'' @ [CHR 0x0A]]"

definition one_tab_events :: "event list" where
  \<comment> \<open>what the tokenizer does on this file\<close>
  "one_tab_events =
    [ReadLine,
     Yield (Token NAME (''if'') (1, 0) (1, 2) (''if x:'' @ [CHR 0x0A])),
     Yield (Token NAME (''x'') (1, 3) (1, 4) (''if x:'' @ [CHR 0x0A])),
     Yield (Token OP ('':'') (1, 4) (1, 5) (''if x:'' @ [CHR 0x0A])),
     Yield (Token NEWLINE ([CHR 0x0A]) (1, 5) (1, 6) (''if x:'' @ [CHR 0x0A])),
     ReadLine,
     Yield (Token INDENT ([CHR 0x09]) (2, 0) (2, 1) ([CHR 0x09] @ ''pass'' @ [CHR 0x0A])),
     Yield (Token NAME (''pass'') (2, 1) (2, 5) ([CHR 0x09] @ ''pass'' @ [CHR 0x0A])),
     Yield (Token NEWLINE ([CHR 0x0A]) (2, 5) (2, 6) ([CHR 0x09] @ ''pass'' @ [CHR 0x0A])),
     ReadLine,
     Yield (Token DEDENT ([]) (3, 0) (3, 0) ([])),
     Yield (Token ENDMARKER ([]) (3, 0) (3, 0) ([]))]"

definition four_tabs_lines :: "string list" where
  \<comment> \<open>the same file with four tabs\<close>
  "four_tabs_lines =
     [''if x:'' @ [CHR 0x0A], [CHR 0x09, CHR 0x09, CHR 0x09, CHR 0x09] @ ''pass'' @ [CHR 0x0A]]"

definition four_tabs_events :: "event list" where
  \<comment> \<open>what the tokenizer does on this file\<close>
  "four_tabs_events =
    [ReadLine,
     Yield (Token NAME (''if'') (1, 0) (1, 2) (''if x:'' @ [CHR 0x0A])),
     Yield (Token NAME (''x'') (1, 3) (1, 4) (''if x:'' @ [CHR 0x0A])),
     Yield (Token OP ('':'') (1, 4) (1, 5) (''if x:'' @ [CHR 0x0A])),
     Yield (Token NEWLINE ([CHR 0x0A]) (1, 5) (1, 6) (''if x:'' @ [CHR 0x0A])),
     ReadLine,
     Yield (Token INDENT ([CHR 0x09, CHR 0x09, CHR 0x09, CHR 0x09]) (2, 0) (2, 4) ([CHR 0x09, CHR 0x09, CHR 0x09, CHR 0x09] @ ''pass'' @ [CHR 0x0A])),
     Yield (Token NAME (''pass'') (2, 4) (2, 8) ([CHR 0x09, CHR 0x09, CHR 0x09, CHR 0x09] @ ''pass'' @ [CHR 0x0A])),
     Yield (Token NEWLINE ([CHR 0x0A]) (2, 8) (2, 9) ([CHR 0x09, CHR 0x09, CHR 0x09, CHR 0x09] @ ''pass'' @ [CHR 0x0A])),
     ReadLine,
     Yield (Token DEDENT ([]) (3, 0) (3, 0) ([])),
     Yield (Token ENDMARKER ([]) (3, 0) (3, 0) ([]))]"

definition stray_dollar_tokens :: "token list" where
  \<comment> \<open>the tokens of its one logical line\<close>
  "stray_dollar_tokens =
     [Token ERRORTOKEN ('' '') (2, 0) (2, 1) ('' $'' @ [CHR 0x0A]),
      Token ERRORTOKEN (''$'') (2, 1) (2, 2) ('' $'' @ [CHR 0x0A]),
      Token NEWLINE ([CHR 0x0A]) (2, 2) (2, 3) ('' $'' @ [CHR 0x0A])]"

definition call_checker :: checker where
  \<comment> \<open>a checker on the file of the two lines \<open>f(a,\<close> and \<open>  b)\<close>\<close>
  "call_checker =
     new_checker ''t.py'' [''f(a,'' @ [CHR 0x0A], ''  b)'' @ [CHR 0x0A]] initial_counters [] []"

definition call_tokens :: "token list" where
  \<comment> \<open>the tokens of its first line\<close>
  "call_tokens =
     [Token NAME (''f'') (1, 0) (1, 1) (''f(a,'' @ [CHR 0x0A]),
      Token OP (''('') (1, 1) (1, 2) (''f(a,'' @ [CHR 0x0A]),
      Token NAME (''a'') (1, 2) (1, 3) (''f(a,'' @ [CHR 0x0A]),
      Token OP ('','') (1, 3) (1, 4) (''f(a,'' @ [CHR 0x0A]),
      Token NL ([CHR 0x0A]) (1, 4) (1, 5) (''f(a,'' @ [CHR 0x0A])]"

definition call_b :: token where
  \<comment> \<open>the first two tokens of its second line\<close>
  "call_b = Token NAME (''b'') (2, 2) (2, 3) (''  b)'' @ [CHR 0x0A])"

definition call_close :: token where
  "call_close = Token OP ('')'') (2, 3) (2, 4) (''  b)'' @ [CHR 0x0A])"

definition call_line :: checker where
  \<comment> \<open>the checker when the NEWLINE token of the second line arrives\<close>
  "call_line =
     call_checker\<lparr>self_tokens :=
       call_tokens @
       [call_b, call_close, Token NEWLINE ([CHR 0x0A]) (2, 4) (2, 5) (''  b)'' @ [CHR 0x0A])]\<rparr>"

section \<open>Properties\<close>

lemma startswith_prefix: "startswith s p \<longleftrightarrow> prefix p s"
  by (induction s p rule: startswith.induct) auto

subsection \<open>The select/ignore filter\<close>

text \<open>
  C1, as the specification states it: a code is reported (\<open>ignore_code\<close> gives no true
  value) iff some prefix in \<open>select\<close> is a prefix of it, or \<open>select\<close> is empty and no
  prefix in \<open>ignore\<close> is a prefix of it. This fails on the code: with
  \<open>select = ['W']\<close> and \<open>ignore = ['E4']\<close> the function falls off its end for
  \<open>E501\<close> and the code is reported, although \<open>select\<close> is not empty and does not
  match.
\<close>

theorem ignore_code_select_empty_counterexample:
  "\<not> (\<forall>opts code.
        (\<not> truthy (ignore_code opts code)) =
        ((\<exists>s \<in> set (opt_select opts). prefix s code) \<or>
         (opt_select opts = [] \<and> \<not> (\<exists>i \<in> set (opt_ignore opts). prefix i code))))"
proof
  assume a: "\<forall>opts code.
        (\<not> truthy (ignore_code opts code)) =
        ((\<exists>s \<in> set (opt_select opts). prefix s code) \<or>
         (opt_select opts = [] \<and> \<not> (\<exists>i \<in> set (opt_ignore opts). prefix i code)))"
  let ?o = "\<lparr>opt_select = [''W''], opt_ignore = [''E4''], opt_quiet = 0, opt_repeat = False,
             opt_show_source = False, opt_show_pep8 = False, opt_fix = False\<rparr>"
  from a have "(\<not> truthy (ignore_code ?o ''E501'')) =
        ((\<exists>s \<in> set (opt_select ?o). prefix s ''E501'') \<or>
         (opt_select ?o = [] \<and> \<not> (\<exists>i \<in> set (opt_ignore ?o). prefix i ''E501'')))"
    by blast
  then show False
    by (simp add: ignore_code_def truthy_def)
qed

text \<open>
  C1, amended: a code is reported iff some prefix in \<open>select\<close> is a prefix of it, or no
  prefix in \<open>ignore\<close> is a prefix of it (whether or not \<open>select\<close> is empty); in
  particular a code that matches a \<open>select\<close> prefix is reported whatever \<open>ignore\<close>
  holds.
\<close>

theorem ignore_code_reported_iff:
  "((\<not> truthy (ignore_code opts code)) =
      ((\<exists>s \<in> set (opt_select opts). prefix s code) \<or>
       \<not> (\<exists>i \<in> set (opt_ignore opts). prefix i code))) \<and>
   ((\<exists>s \<in> set (opt_select opts). prefix s code) \<longrightarrow> \<not> truthy (ignore_code opts code))"
  by (auto simp: ignore_code_def truthy_def list_ex_iff startswith_prefix)

theorem ignore_code_reported_iff_witness:
  "\<not> truthy (ignore_code
      \<lparr>opt_select = [''E5''], opt_ignore = [''E''], opt_quiet = 0, opt_repeat = False,
       opt_show_source = False, opt_show_pep8 = False, opt_fix = False\<rparr> ''E501'') \<and>
   truthy (ignore_code
      \<lparr>opt_select = [''W''], opt_ignore = [''E''], opt_quiet = 0, opt_repeat = False,
       opt_show_source = False, opt_show_pep8 = False, opt_fix = False\<rparr> ''E501'')"
  using ignore_code_reported_iff
    [of "\<lparr>opt_select = [''E5''], opt_ignore = [''E''], opt_quiet = 0, opt_repeat = False,
       opt_show_source = False, opt_show_pep8 = False, opt_fix = False\<rparr>" "''E501''"]
    ignore_code_reported_iff
    [of "\<lparr>opt_select = [''W''], opt_ignore = [''E''], opt_quiet = 0, opt_repeat = False,
       opt_show_source = False, opt_show_pep8 = False, opt_fix = False\<rparr>" "''E501''"]
  by (simp add: prefix_def)

subsection \<open>missing\_whitespace\<close>

lemma first_some_None: "first_some f xs = None \<longleftrightarrow> (\<forall>x \<in> set xs. f x = None)"
  by (induction xs) (auto split: option.splits)

lemma first_some_Some:
  "first_some f xs = Some r \<Longrightarrow>
     \<exists>k < length xs. f (xs ! k) = Some r \<and> (\<forall>j < k. f (xs ! j) = None)"
proof (induction xs)
  case Nil
  then show ?case by simp
next
  case (Cons x xs)
  show ?case
  proof (cases "f x")
    case None
    with Cons.prems have "first_some f xs = Some r" by simp
    from Cons.IH[OF this] obtain k where k: "k < length xs" "f (xs ! k) = Some r"
      "\<forall>j < k. f (xs ! j) = None" by blast
    have "\<forall>j < Suc k. f ((x # xs) ! j) = None"
      using None k(3) by (auto simp: nth_Cons split: nat.splits)
    with k(1,2) show ?thesis
      by (intro exI[of _ "Suc k"]) simp
  next
    case (Some a)
    with Cons.prems have "a = r" by simp
    with Some show ?thesis by (intro exI[of _ 0]) simp
  qed
qed

lemma missing_whitespace_body_eq:
  "index + 1 < length line \<Longrightarrow>
   missing_whitespace_body line index =
     (if needs_space line index
      then Some (Off (int index),
                 ''E231 missing whitespace after '' @ apostrophe @ [line ! index] @ apostrophe)
      else None)"
  by (auto simp: missing_whitespace_body_def needs_space_def WHITESPACE_def Let_def)

lemma needs_space_bound: "needs_space line i \<Longrightarrow> i < length line - 1"
  by (auto simp: needs_space_def)

text \<open>
  C6, as stated: \<open>missing_whitespace.check\<close> returns E231 at the first index whose
  character is a comma, semicolon or colon followed by a character that is neither a
  space nor a tab, where a slice colon and a comma followed by a closing bracket do not
  count, and nothing when there is no such index. This fails on the code: the check
  exempts a comma before \<open>)\<close> and \<open>]\<close> only. On the line \<open>{1,}\<close> the comma is
  followed by the closing bracket \<open>}\<close>, no index needs a space in the sense of the
  claim, and the check returns E231 at offset 2.
\<close>

theorem missing_whitespace_brace_counterexample:
  "\<not> (\<forall>line.
        missing_whitespace_check line =
          (if \<exists>i. needs_space_as_claimed line i
           then Some (Off (int (LEAST i. needs_space_as_claimed line i)),
                      ''E231 missing whitespace after '' @ apostrophe @
                      [line ! (LEAST i. needs_space_as_claimed line i)] @ apostrophe)
           else None))"
proof
  assume a: "\<forall>line.
        missing_whitespace_check line =
          (if \<exists>i. needs_space_as_claimed line i
           then Some (Off (int (LEAST i. needs_space_as_claimed line i)),
                      ''E231 missing whitespace after '' @ apostrophe @
                      [line ! (LEAST i. needs_space_as_claimed line i)] @ apostrophe)
           else None)"
  have none: "\<not> needs_space_as_claimed ''{1,}'' i" for i
  proof
    assume n: "needs_space_as_claimed ''{1,}'' i"
    then have "i = 0 \<or> i = 1 \<or> i = 2"
      by (auto simp: needs_space_as_claimed_def)
    with n show False
      by (auto simp: needs_space_as_claimed_def closing_bracket_def)
  qed
  have c: "missing_whitespace_check ''{1,}'' =
      Some (Off 2, ''E231 missing whitespace after '' @ apostrophe @ '','' @ apostrophe)"
    by code_simp
  from a have "missing_whitespace_check ''{1,}'' =
          (if \<exists>i. needs_space_as_claimed ''{1,}'' i
           then Some (Off (int (LEAST i. needs_space_as_claimed ''{1,}'' i)),
                      ''E231 missing whitespace after '' @ apostrophe @
                      [''{1,}'' ! (LEAST i. needs_space_as_claimed ''{1,}'' i)] @ apostrophe)
           else None)"
    by blast
  with none c show False by simp
qed

text \<open>
  C6, amended: \<open>missing_whitespace.check\<close> returns E231 at the first index whose
  character is a comma, semicolon or colon followed by a character that is neither a
  space nor a tab, where a colon with more \<open>[\<close> than \<open>]\<close> before it (a slice) and a
  comma followed by \<open>)\<close> or \<open>]\<close> (a tuple or list of one element) do not count; it
  returns nothing when there is no such index. The last character of the line is never
  examined.
\<close>

theorem missing_whitespace_check_first:
  "missing_whitespace_check line =
     (if \<exists>i. needs_space line i
      then Some (Off (int (LEAST i. needs_space line i)),
                 ''E231 missing whitespace after '' @ apostrophe @
                 [line ! (LEAST i. needs_space line i)] @ apostrophe)
      else None)"
proof (cases "\<exists>i. needs_space line i")
  case False
  then have "\<forall>x \<in> set [0 ..< length line - 1]. missing_whitespace_body line x = None"
    by (auto simp: missing_whitespace_body_eq)
  then have "missing_whitespace_check line = None"
    unfolding missing_whitespace_check_def first_some_None by blast
  with False show ?thesis by simp
next
  case True
  then obtain i where i: "needs_space line i" by blast
  define n where "n = length line - 1"
  from i have "i < n" unfolding n_def by (rule needs_space_bound)
  with i have "missing_whitespace_body line i \<noteq> None"
    by (simp add: missing_whitespace_body_eq n_def)
  with \<open>i < n\<close> have "first_some (missing_whitespace_body line) [0 ..< n] \<noteq> None"
    unfolding first_some_None by (auto intro!: bexI[of _ i])
  then obtain r where r: "first_some (missing_whitespace_body line) [0 ..< n] = Some r"
    by blast
  from first_some_Some[OF r] obtain k where k: "k < n"
    "missing_whitespace_body line k = Some r"
    "\<forall>j < k. missing_whitespace_body line j = None"
    by auto
  from k(1) have kb: "k + 1 < length line" unfolding n_def by simp
  from k(2) kb have nk: "needs_space line k"
    by (simp add: missing_whitespace_body_eq split: if_splits)
  have "\<not> needs_space line j" if "j < k" for j
  proof -
    from that kb have "j + 1 < length line" by simp
    moreover from that k(3) have "missing_whitespace_body line j = None" by blast
    ultimately show ?thesis by (simp add: missing_whitespace_body_eq split: if_splits)
  qed
  then have least: "(LEAST i. needs_space line i) = k"
    using nk by (intro Least_equality) (auto simp: not_less[symmetric])
  from k(2) kb nk have "r = (Off (int k),
        ''E231 missing whitespace after '' @ apostrophe @ [line ! k] @ apostrophe)"
    by (simp add: missing_whitespace_body_eq)
  with r least True show ?thesis
    unfolding missing_whitespace_check_def n_def by auto
qed

theorem missing_whitespace_check_first_witness:
  "needs_space ''foo(bar,baz)'' 7 \<and>
   missing_whitespace_check ''foo(bar,baz)'' =
     Some (Off 7, ''E231 missing whitespace after '' @ apostrophe @ '','' @ apostrophe) \<and>
   \<not> (\<exists>i. needs_space ''a[1:4], (3,)'' i) \<and>
   missing_whitespace_check ''a[1:4], (3,)'' = None"
proof -
  have a: "needs_space ''foo(bar,baz)'' 7"
    by (simp add: needs_space_def count_char_def)
  have b: "missing_whitespace_check ''foo(bar,baz)'' =
     Some (Off 7, ''E231 missing whitespace after '' @ apostrophe @ '','' @ apostrophe)"
    by code_simp
  have c: "missing_whitespace_check ''a[1:4], (3,)'' = None"
    by code_simp
  from c have d: "\<not> (\<exists>i. needs_space ''a[1:4], (3,)'' i)"
    using missing_whitespace_check_first [of "''a[1:4], (3,)''"]
    by (auto split: if_splits)
  from a b c d show ?thesis by blast
qed

subsection \<open>maximum\_line\_length\<close>

lemma rstrip_bytes_121:
  "rstrip (replicate 121 (CHR 0xFF) @ [CHR 0x0A]) = replicate 121 (CHR 0xFF)"
  by code_simp

lemma undecodable_121: "utf8_characters (replicate 121 (CHR 0xFF)) = None"
  by code_simp

lemma check_undecodable_121:
  "maximum_line_length_check python_env (replicate 121 (CHR 0xFF) @ [CHR 0x0A]) =
     Some (Off 120, ''E501 line too long (121 characters)'')"
  by code_simp

lemma check_decodable_121:
  "maximum_line_length_check python_env
     (replicate 119 (CHR ''a'') @ [CHR 0xC3, CHR 0xA9, CHR 0x0A]) = None"
  by code_simp

text \<open>
  C10, as stated: whenever E501 is returned, the reported length is the number of
  characters the line decodes to. This fails for a line that is not UTF-8: for 121 bytes
  \<open>0xFF\<close> decoding raises UnicodeDecodeError, which the check catches, and E501 reports
  the 121 bytes.
\<close>

theorem maximum_line_length_decoded_counterexample:
  "\<not> (\<forall>e physical_line r.
        maximum_line_length_check e physical_line = Some r \<longrightarrow>
        (\<exists>n. utf8_length e (rstrip physical_line) = Some n \<and>
             r = (Off MAX_LINE_LENGTH,
                  ''E501 line too long ('' @ str_int n @ '' characters)'')))"
proof
  assume a: "\<forall>e physical_line r.
        maximum_line_length_check e physical_line = Some r \<longrightarrow>
        (\<exists>n. utf8_length e (rstrip physical_line) = Some n \<and>
             r = (Off MAX_LINE_LENGTH,
                  ''E501 line too long ('' @ str_int n @ '' characters)''))"
  from a check_undecodable_121
  have "\<exists>n. utf8_length python_env (rstrip (replicate 121 (CHR 0xFF) @ [CHR 0x0A])) = Some n"
    by blast
  then show False
    by (simp add: rstrip_bytes_121 python_env_def undecodable_121)
qed

text \<open>
  C10, amended: a physical line whose right-stripped byte length exceeds the maximum but
  which decodes as UTF-8 to at most the maximum number of characters gets no E501; when
  E501 is returned, the right-stripped line has more bytes than the maximum, the offset
  is the maximum line length, and the reported length is the decoded character count
  when the line decodes as UTF-8 and its byte length when it does not.
\<close>

theorem maximum_line_length_check_result:
  "(int (length (rstrip physical_line)) > MAX_LINE_LENGTH \<and>
    utf8_length e (rstrip physical_line) = Some n \<and> n \<le> MAX_LINE_LENGTH
      \<longrightarrow> maximum_line_length_check e physical_line = None) \<and>
   (maximum_line_length_check e physical_line = Some r
      \<longrightarrow> int (length (rstrip physical_line)) > MAX_LINE_LENGTH \<and>
          fst r = Off MAX_LINE_LENGTH \<and>
          snd r = ''E501 line too long ('' @
                  str_int (case utf8_length e (rstrip physical_line) of
                             Some k \<Rightarrow> k
                           | None \<Rightarrow> int (length (rstrip physical_line))) @
                  '' characters)'')"
  by (auto simp: maximum_line_length_check_def decoded_length_def Let_def
           split: if_splits option.splits)

theorem maximum_line_length_check_result_witness:
  "int (length (rstrip (replicate 119 (CHR ''a'') @ [CHR 0xC3, CHR 0xA9, CHR 0x0A])))
     > MAX_LINE_LENGTH \<and>
   utf8_length python_env (rstrip (replicate 119 (CHR ''a'') @ [CHR 0xC3, CHR 0xA9, CHR 0x0A]))
     = Some 120 \<and>
   (120 :: int) \<le> MAX_LINE_LENGTH \<and>
   maximum_line_length_check python_env
     (replicate 119 (CHR ''a'') @ [CHR 0xC3, CHR 0xA9, CHR 0x0A]) = None \<and>
   maximum_line_length_check python_env (replicate 121 (CHR 0xFF) @ [CHR 0x0A]) =
     Some (Off 120, ''E501 line too long (121 characters)'') \<and>
   utf8_length python_env (rstrip (replicate 121 (CHR 0xFF) @ [CHR 0x0A])) = None"
proof -
  let ?l = "replicate 119 (CHR ''a'') @ [CHR 0xC3, CHR 0xA9, CHR 0x0A]"
  have h1: "int (length (rstrip ?l)) > MAX_LINE_LENGTH"
    by code_simp
  have h2: "utf8_length python_env (rstrip ?l) = Some 120"
    by code_simp
  have h3: "(120 :: int) \<le> MAX_LINE_LENGTH"
    by (simp add: MAX_LINE_LENGTH_def)
  from maximum_line_length_check_result [of ?l python_env 120 "(Off 0, [])"] h1 h2 h3
  have c: "maximum_line_length_check python_env ?l = None"
    by blast
  have d: "utf8_length python_env (rstrip (replicate 121 (CHR 0xFF) @ [CHR 0x0A])) = None"
    by (simp add: rstrip_bytes_121 python_env_def undecodable_121)
  from h1 h2 h3 c d check_undecodable_121 show ?thesis
    by blast
qed

subsection \<open>expand\_indent and the indent level\<close>

lemma expand_indent_loop_foldl:
  "expand_indent_loop result line =
     foldl (\<lambda>column c. if c = CHR '' '' then column + 1 else next_tab_stop column) result
       (takeWhile (\<lambda>c. c = CHR '' '' \<or> c = CHR 0x09) line)"
  by (induction line arbitrary: result) (auto simp: next_tab_stop_def algebra_simps)

lemma next_tab_stop_next:
  "TAB_SIZE dvd next_tab_stop column \<and> column < next_tab_stop column \<and>
   next_tab_stop column \<le> column + TAB_SIZE"
  unfolding next_tab_stop_def TAB_SIZE_def by presburger

lemma fold_err_frame:
  assumes step: "\<And>x s s'. f x s = Inr s' \<Longrightarrow> P s \<Longrightarrow> P s'"
  shows "fold_err f xs s = Inr s' \<Longrightarrow> P s \<Longrightarrow> P s'"
proof (induction xs arbitrary: s)
  case Nil
  then show ?case by simp
next
  case (Cons x xs)
  then show ?case
    by (auto split: sum.splits dest: step)
qed

lemma report_fix_frame:
  "self_indent_level (report_fix opts msg old new self) = self_indent_level self \<and>
   self_previous_indent_level (report_fix opts msg old new self) =
     self_previous_indent_level self"
  by (simp add: report_fix_def message_def)

lemma check_fix_frame:
  "check_fix opts c checker args = Inr (checker', r) \<Longrightarrow>
   self_indent_level checker' = self_indent_level checker \<and>
   self_previous_indent_level checker' = self_previous_indent_level checker"
  by (cases c)
     (auto simp: returned_def tabs_or_spaces_fix_def tabs_obsolete_fix_def
        trailing_whitespace_fix_def trailing_blank_lines_fix_def missing_newline_fix_def
        blank_lines_fix_def extraneous_whitespace_fix_def missing_whitespace_fix_def
        whitespace_around_operator_fix_def missing_whitespace_around_operator_fix_def
        whitespace_around_comma_fix_def whitespace_around_named_parameter_equals_fix_def
        python_3000_raise_comma_fix_def report_fix_frame Let_def
      split: sum.splits if_splits)

lemma report_error_frame:
  "report_error opts self line_number offset text doc = Inr self' \<Longrightarrow>
   self_indent_level self' = self_indent_level self \<and>
   self_previous_indent_level self' = self_previous_indent_level self"
  by (auto simp: report_error_def print_error_def count_error_def message_def Let_def
      split: if_splits option.splits sum.splits)

lemma logical_fix_frame:
  "logical_fix opts c args text self = Inr self' \<Longrightarrow>
   self_indent_level self' = self_indent_level self \<and>
   self_previous_indent_level self' = self_previous_indent_level self"
  by (auto simp: logical_fix_def Let_def split: if_splits sum.splits option.splits
      dest!: check_fix_frame)

lemma logical_step_frame:
  "logical_step e opts c st = Inr st' \<Longrightarrow>
   self_indent_level (fst st') = self_indent_level (fst st) \<and>
   self_previous_indent_level (fst st') = self_previous_indent_level (fst st)"
  by (auto simp: logical_step_def Let_def split: sum.splits option.splits prod.splits
      dest!: report_error_frame logical_fix_frame)

lemma logical_steps_frame:
  "fold_err (logical_step e opts) cs st = Inr st' \<Longrightarrow>
   self_indent_level (fst st') = self_indent_level (fst st) \<and>
   self_previous_indent_level (fst st') = self_previous_indent_level (fst st)"
proof (induction cs arbitrary: st)
  case Nil
  then show ?case by simp
next
  case (Cons c cs)
  then show ?case
    by (auto split: sum.splits dest!: logical_step_frame)
qed

lemma write_fixed_frame:
  "write_fixed n self = Inr self' \<Longrightarrow>
   self_indent_level self' = self_indent_level self \<and>
   self_previous_indent_level self' = self_previous_indent_level self"
  by (auto simp: write_fixed_def writer_write_def split: option.splits)

lemma write_fixed_all_frame:
  "fold_err write_fixed ns self = Inr self' \<Longrightarrow>
   self_indent_level self' = self_indent_level self \<and>
   self_previous_indent_level self' = self_previous_indent_level self"
proof (induction ns arbitrary: self)
  case Nil
  then show ?case by simp
next
  case (Cons n ns)
  then show ?case
    by (auto split: sum.splits dest!: write_fixed_frame)
qed

lemma write_logical_frame:
  "write_logical ns self = Inr self' \<Longrightarrow>
   self_indent_level self' = self_indent_level self \<and>
   self_previous_indent_level self' = self_previous_indent_level self"
  by (auto simp: write_logical_def writer_write_def Let_def
      split: if_splits sum.splits list.splits prod.splits dest!: write_fixed_all_frame)

lemma build_step_frame:
  "build_step token st = Inr st' \<Longrightarrow>
   self_lines (b_self st') = self_lines (b_self st) \<and>
   self_indent_level (b_self st') = self_indent_level (b_self st) \<and>
   map snd (self_mapping (b_self st')) =
     map snd (self_mapping (b_self st)) @ filter kept [token]"
  by (auto simp: build_step_def kept_def Let_def split: if_splits sum.splits)

lemma build_steps_frame:
  "fold_err build_step toks st = Inr st' \<Longrightarrow>
   self_lines (b_self st') = self_lines (b_self st) \<and>
   self_indent_level (b_self st') = self_indent_level (b_self st) \<and>
   map snd (self_mapping (b_self st')) =
     map snd (self_mapping (b_self st)) @ filter kept toks"
proof (induction toks arbitrary: st)
  case Nil
  then show ?case by simp
next
  case (Cons token toks)
  from Cons.prems obtain st1 where s1: "build_step token st = Inr st1"
    and s2: "fold_err build_step toks st1 = Inr st'"
    by (auto split: sum.splits)
  from build_step_frame[OF s1] Cons.IH[OF s2] show ?case
    by auto
qed

lemma build_tokens_line_frame:
  "build_tokens_line self = Inr self' \<Longrightarrow>
   self_lines self' = self_lines self \<and>
   self_indent_level self' = self_indent_level self \<and>
   map snd (self_mapping self') = filter kept (self_tokens self)"
  by (auto simp: build_tokens_line_def build_init_def Let_def split: sum.splits if_splits
      dest!: build_steps_frame)

lemma add_counter_frame:
  "add_counter key n self = Inr self' \<Longrightarrow>
   self_lines self' = self_lines self \<and> self_indent_level self' = self_indent_level self \<and>
   self_tokens self' = self_tokens self"
  by (auto simp: add_counter_def split: option.splits)

lemma check_logical_indent:
  assumes "check_logical e opts self = Inr self'"
  shows "\<exists>token others first_line.
           filter kept (self_tokens self) = token # others \<and>
           py_index (self_lines self) (fst (tok_start token) - 1) = Some first_line \<and>
           self_indent_level self' =
             expand_indent (slice_to first_line (snd (tok_start token))) \<and>
           self_previous_indent_level self' = self_indent_level self"
proof -
  from assms obtain self1 where a1: "add_counter ''logical lines'' 1 self = Inr self1"
    by (auto simp: check_logical_def split: sum.splits)
  from assms a1 obtain self2 where
    a2: "build_tokens_line (self1\<lparr>self_muted_strings := []\<rparr>) = Inr self2"
    by (auto simp: check_logical_def split: sum.splits)
  from assms a1 a2 obtain first_mapping others where a3: "self_mapping self2 = first_mapping # others"
    by (auto simp: check_logical_def split: sum.splits list.splits)
  from assms a1 a2 a3 obtain first_line where
    a4: "py_index (self_lines self2) (fst (tok_start (snd first_mapping)) - 1) = Some first_line"
    by (auto simp: check_logical_def split: sum.splits list.splits option.splits)
  define self4 where "self4 = self2\<lparr>self_previous_indent_level := self_indent_level self2,
     self_indent_level := expand_indent (slice_to first_line (snd (tok_start (snd first_mapping))))\<rparr>"
  from assms a1 a2 a3 a4 obtain self5 original where
    a5: "fold_err (logical_step e opts) (logical_checks opts) (self4, None) = Inr (self5, original)"
    by (auto simp: check_logical_def Let_def self4_def split: sum.splits)
  from assms a1 a2 a3 a4 a5 obtain self6 where
    a6: "(if opt_fix opts
          then write_logical (physical_line_numbers_of (self_mapping self5)) self5
          else Inr self5) = Inr self6"
    and a7: "self' = self6\<lparr>self_previous_logical := self_logical_line self6\<rparr>"
    by (auto simp: check_logical_def Let_def self4_def split: sum.splits)
  from a6 have f6: "self_indent_level self6 = self_indent_level self5 \<and>
     self_previous_indent_level self6 = self_previous_indent_level self5"
    by (auto split: if_splits dest!: write_logical_frame)
  from logical_steps_frame[OF a5] have f5: "self_indent_level self5 = self_indent_level self4 \<and>
     self_previous_indent_level self5 = self_previous_indent_level self4"
    by simp
  from build_tokens_line_frame[OF a2] add_counter_frame[OF a1]
  have f2: "self_lines self2 = self_lines self" "self_indent_level self2 = self_indent_level self"
    "map snd (self_mapping self2) = filter kept (self_tokens self)"
    by simp_all
  from f2(3) a3 have "filter kept (self_tokens self) = snd first_mapping # map snd others"
    by simp
  moreover from a4 f2(1)
  have "py_index (self_lines self) (fst (tok_start (snd first_mapping)) - 1) = Some first_line"
    by simp
  moreover from a7 f6 f5 f2(2)
  have "self_indent_level self' =
          expand_indent (slice_to first_line (snd (tok_start (snd first_mapping))))"
       "self_previous_indent_level self' = self_indent_level self"
    by (simp_all add: self4_def)
  ultimately show ?thesis by blast
qed

text \<open>
  C8: \<open>expand_indent\<close> is the width of the leading spaces and tabs of its argument, a
  space counting 1 and a tab going to the next multiple of the tab width (the least
  multiple above the running column); characters after the first that is neither a
  space nor a tab are not looked at. When \<open>check_logical\<close> returns, the indent level
  is \<open>expand_indent\<close> of the part of the source row of the first contributing token
  that lies before the token, and the previous indent level is the indent level from
  before the call.
\<close>

theorem expand_indent_indent_level:
  "expand_indent line = indent_width line \<and>
   (TAB_SIZE dvd next_tab_stop column \<and> column < next_tab_stop column \<and>
    next_tab_stop column \<le> column + TAB_SIZE) \<and>
   (check_logical e opts self = Inr self' \<longrightarrow>
      (\<exists>token others first_line.
         filter kept (self_tokens self) = token # others \<and>
         py_index (self_lines self) (fst (tok_start token) - 1) = Some first_line \<and>
         self_indent_level self' =
           expand_indent (slice_to first_line (snd (tok_start token))) \<and>
         self_previous_indent_level self' = self_indent_level self))"
  using check_logical_indent [of e opts self self'] next_tab_stop_next [of column]
  by (simp add: expand_indent_def indent_width_def expand_indent_loop_foldl)

lemma indented_pass_level:
  "map_sum id (\<lambda>s. (self_indent_level s, self_previous_indent_level s))
     (check_logical python_env default_options indented_pass) = Inr (5, 0)"
  by code_simp

theorem expand_indent_indent_level_witness:
  "expand_indent ([CHR 0x09] @ '' pass'') = 5 \<and>
   (\<exists>self'. check_logical python_env default_options indented_pass = Inr self' \<and>
      self_indent_level self' = expand_indent (slice_to ([CHR 0x09] @ '' pass'' @ [CHR 0x0A]) 2) \<and>
      self_indent_level self' = 5)"
proof -
  from indented_pass_level obtain self' where
    r: "check_logical python_env default_options indented_pass = Inr self'"
    and l: "self_indent_level self' = 5"
    by (cases "check_logical python_env default_options indented_pass") auto
  have t: "filter kept (self_tokens indented_pass) =
      [Token NAME ''pass'' (2, 2) (2, 6) ([CHR 0x09] @ '' pass'' @ [CHR 0x0A])]"
    by code_simp
  have w: "expand_indent ([CHR 0x09] @ '' pass'') = 5"
    by code_simp
  from expand_indent_indent_level [of "[CHR 0x09] @ '' pass''" 0 python_env default_options
      indented_pass self'] r t
  have "self_indent_level self' =
      expand_indent (slice_to ([CHR 0x09] @ '' pass'' @ [CHR 0x0A]) 2)"
    by (auto simp: Token_def indented_pass_def new_checker_def py_index_def)
  with r l w show ?thesis by blast
qed

subsection \<open>blank\_lines\<close>

lemma blank_lines_check_E302:
  "line_number \<noteq> 1 \<Longrightarrow> indent_level = 0 \<Longrightarrow>
   startswith logical_line ''def '' \<or> startswith logical_line ''class '' \<or>
     startswith logical_line ''@'' \<Longrightarrow>
   \<not> startswith previous_logical ''@'' \<Longrightarrow>
   max blank_lines blank_lines_before_comment = 0 \<or>
     max blank_lines blank_lines_before_comment = 1 \<Longrightarrow>
   blank_lines_check logical_line blank_lines indent_level line_number previous_logical
       previous_indent_level blank_lines_before_comment =
     Some (Off 0, ''E302 expected 2 blank lines, found '' @
                  str_int (max blank_lines blank_lines_before_comment))"
  unfolding blank_lines_check_def Let_def by auto

lemma two_defs_check:
  "map_sum id (\<lambda>s. (stdout s, counters s, self_file_errors s))
     (input_file e default_options fname two_defs_lines two_defs_events) =
   Inr ([fname @ '':3:1: E302 expected 2 blank lines, found 0''],
        [(''directories'', 0), (''files'', 0), (''logical lines'', 4),
         (''physical lines'', 4), (''E302'', 1)], 1)"
  by code_simp

lemma two_defs_fix:
  "map_sum id self_writer
     (input_file e (default_options\<lparr>opt_fix := True\<rparr>) fname two_defs_lines two_defs_events) =
   Inr (''def a():'' @ [CHR 0x0A] @ ''    pass'' @ [CHR 0x0A] @ [CHR 0x0A, CHR 0x0A] @
        ''def b():'' @ [CHR 0x0A] @ ''    pass'' @ [CHR 0x0A])"
  by code_simp

text \<open>
  C5: when the checker is past line 1, the indent level is zero, the logical line starts
  with \<open>def \<close>, \<open>class \<close> or \<open>@\<close>, the previous logical line does not start with
  \<open>@\<close>, and the larger of \<open>blank_lines\<close> and \<open>blank_lines_before_comment\<close> is 0
  or 1, \<open>blank_lines.check\<close> returns E302 \<open>expected 2 blank lines\<close>, with the number
  found, at offset 0. On the file \<open>def a(): / pass / def b(): / pass\<close>, with the
  default options, the checker prints exactly one error, E302 with 0 found at line 3
  column 1, and counts one error; with fixing on, what it writes has exactly two blank
  lines before \<open>def b():\<close> and the four lines unchanged.
\<close>

theorem blank_lines_E302:
  "(line_number \<noteq> 1 \<and> indent_level = 0 \<and>
    (startswith logical_line ''def '' \<or> startswith logical_line ''class '' \<or>
     startswith logical_line ''@'') \<and>
    \<not> startswith previous_logical ''@'' \<and>
    max blank_lines blank_lines_before_comment \<in> {0, 1}
    \<longrightarrow>
    blank_lines_check logical_line blank_lines indent_level line_number previous_logical
        previous_indent_level blank_lines_before_comment =
      Some (Off 0, ''E302 expected 2 blank lines, found '' @
                   str_int (max blank_lines blank_lines_before_comment))) \<and>
   map_sum id (\<lambda>s. (stdout s, counters s, self_file_errors s))
     (input_file e default_options fname two_defs_lines two_defs_events) =
     Inr ([fname @ '':3:1: E302 expected 2 blank lines, found 0''],
          [(''directories'', 0), (''files'', 0), (''logical lines'', 4),
           (''physical lines'', 4), (''E302'', 1)], 1) \<and>
   map_sum id self_writer
     (input_file e (default_options\<lparr>opt_fix := True\<rparr>) fname two_defs_lines two_defs_events) =
     Inr (''def a():'' @ [CHR 0x0A] @ ''    pass'' @ [CHR 0x0A] @ [CHR 0x0A, CHR 0x0A] @
          ''def b():'' @ [CHR 0x0A] @ ''    pass'' @ [CHR 0x0A])"
  using blank_lines_check_E302 [of line_number indent_level logical_line previous_logical
      blank_lines blank_lines_before_comment previous_indent_level]
    two_defs_check [of e fname] two_defs_fix [of e fname]
  by auto

theorem blank_lines_E302_witness:
  "(3 :: int) \<noteq> 1 \<and> startswith ''def b():'' ''def '' \<and> \<not> startswith ''pass'' ''@'' \<and>
   max 0 0 \<in> {0, 1 :: int} \<and>
   blank_lines_check ''def b():'' 0 0 3 ''pass'' 4 0 =
     Some (Off 0, ''E302 expected 2 blank lines, found 0'') \<and>
   blank_lines_check ''class C:'' 1 0 7 ''x = 1'' 0 0 =
     Some (Off 0, ''E302 expected 2 blank lines, found 1'')"
proof -
  have h: "(3 :: int) \<noteq> 1" "startswith ''def b():'' ''def ''" "\<not> startswith ''pass'' ''@''"
    "max 0 0 \<in> {0, 1 :: int}"
    by simp_all
  have d: "str_int 0 = ''0''" "str_int 1 = ''1''"
    by code_simp+
  from blank_lines_E302 [of 3 0 "''def b():''" "''pass''" 0 0 4 python_env "''t.py''"] h
  have a: "blank_lines_check ''def b():'' 0 0 3 ''pass'' 4 0 =
     Some (Off 0, ''E302 expected 2 blank lines, found 0'')"
    by (simp add: d)
  from blank_lines_E302 [of 7 0 "''class C:''" "''x = 1''" 1 0 0 python_env "''t.py''"]
  have b: "blank_lines_check ''class C:'' 1 0 7 ''x = 1'' 0 0 =
     Some (Off 0, ''E302 expected 2 blank lines, found 1'')"
    by (simp add: d)
  from h a b show ?thesis by blast
qed

subsection \<open>Deprecated constructs\<close>

lemma occurs_Cons:
  "\<not> prefix sub (c # s) \<Longrightarrow> (\<exists>j. prefix sub (drop j (c # s))) = (\<exists>j. prefix sub (drop j s))"
proof
  assume n: "\<not> prefix sub (c # s)" and "\<exists>j. prefix sub (drop j (c # s))"
  then obtain j where j: "prefix sub (drop j (c # s))" by blast
  with n have "j \<noteq> 0" by (cases j) auto
  then obtain i where "j = Suc i" by (cases j) auto
  with j show "\<exists>j. prefix sub (drop j s)" by auto
next
  assume "\<exists>j. prefix sub (drop j s)"
  then obtain j where "prefix sub (drop j s)" by blast
  then have "prefix sub (drop (Suc j) (c # s))" by simp
  then show "\<exists>j. prefix sub (drop j (c # s))" by blast
qed

lemma find_from_least:
  "find_from k s sub =
     (if \<exists>j. prefix sub (drop j s) then int (k + (LEAST j. prefix sub (drop j s))) else - 1)"
proof (induction s arbitrary: k)
  case Nil
  show ?case by (auto simp: Least_equality)
next
  case (Cons c s)
  show ?case
  proof (cases "prefix sub (c # s)")
    case True
    then have "(LEAST j. prefix sub (drop j (c # s))) = 0"
      by (intro Least_equality) auto
    moreover from True have "\<exists>j. prefix sub (drop j (c # s))"
      by (intro exI[of _ 0]) simp
    ultimately show ?thesis using True
      by (simp add: startswith_prefix)
  next
    case False
    show ?thesis
    proof (cases "\<exists>j. prefix sub (drop j s)")
      case no: False
      with False occurs_Cons[OF False] show ?thesis
        by (simp add: startswith_prefix Cons.IH)
    next
      case yes: True
      then obtain j where j: "prefix sub (drop (Suc j) (c # s))" by auto
      from False have n0: "\<not> prefix sub (drop 0 (c # s))" by simp
      have "(LEAST j. prefix sub (drop j (c # s))) = Suc (LEAST j. prefix sub (drop (Suc j) (c # s)))"
        using j n0 by (rule Least_Suc)
      then have "(LEAST j. prefix sub (drop j (c # s))) = Suc (LEAST j. prefix sub (drop j s))"
        by simp
      with False yes occurs_Cons[OF False] show ?thesis
        by (simp add: startswith_prefix Cons.IH)
    qed
  qed
qed

lemma find_least:
  "find s sub =
     (if \<exists>j. prefix sub (drop j s) then int (LEAST j. prefix sub (drop j s)) else - 1)"
  by (simp add: find_def find_from_least)









subsection \<open>report\_error\<close>

lemma ignore_E302_registered: "registered ignore_E302 Blank_lines"
  by code_simp

lemma ignore_E302_suppressed:
  "truthy (ignore_code ignore_E302 (slice_to ''E302 expected 2 blank lines, found 0'' 4))"
  by code_simp

lemma ignore_E302_run:
  "map_sum id (\<lambda>s. (stdout s, map_of (counters s) ''E302'', map_of (messages s) ''E302'',
                     self_file_errors s))
     (input_file python_env ignore_E302 ''t.py'' two_defs_lines two_defs_events) =
   Inr ([], None, None, 0)"
  by code_simp

text \<open>
  C2, as stated: a violation whose code is suppressed is not printed, but its counter is
  still incremented and its message recorded. This fails on the code: \<open>report_error\<close>
  returns before it touches the tables. With \<open>--ignore=E302\<close> the check
  \<open>blank_lines\<close> still runs (its other codes are not ignored) and passes its E302 on
  the line \<open>def b():\<close> of the file \<open>def a(): / pass / def b(): / pass\<close> to
  \<open>report_error\<close>; the code is suppressed, and after the run \<open>options.counters\<close> and
  \<open>options.messages\<close> have no entry for E302.
\<close>

theorem report_error_suppressed_counterexample:
  "registered ignore_E302 Blank_lines \<and>
   blank_lines_check ''def b():'' 0 0 3 ''pass'' 4 0 =
     Some (Off 0, ''E302 expected 2 blank lines, found 0'') \<and>
   map_sum id (\<lambda>s. (stdout s, map_of (counters s) ''E302'', map_of (messages s) ''E302'',
                     self_file_errors s))
     (input_file python_env ignore_E302 ''t.py'' two_defs_lines two_defs_events) =
     Inr ([], None, None, 0) \<and>
   \<not> (\<forall>opts self line_number offset text doc self'.
        truthy (ignore_code opts (slice_to text 4)) \<and>
        report_error opts self line_number offset text doc = Inr self' \<longrightarrow>
        stdout self' = stdout self \<and>
        map_of (counters self') (slice_to text 4) =
          Some (case map_of (counters self) (slice_to text 4) of
                  Some v \<Rightarrow> v + 1 | None \<Rightarrow> 1))"
proof -
  let ?t = "''E302 expected 2 blank lines, found 0''"
  let ?c = "new_checker ''t.py'' two_defs_lines initial_counters [] []"
  have b: "blank_lines_check ''def b():'' 0 0 3 ''pass'' 4 0 = Some (Off 0, ?t)"
    by code_simp
  have "\<not> (\<forall>opts self line_number offset text doc self'.
        truthy (ignore_code opts (slice_to text 4)) \<and>
        report_error opts self line_number offset text doc = Inr self' \<longrightarrow>
        stdout self' = stdout self \<and>
        map_of (counters self') (slice_to text 4) =
          Some (case map_of (counters self) (slice_to text 4) of
                  Some v \<Rightarrow> v + 1 | None \<Rightarrow> 1))"
  proof
    assume a: "\<forall>opts self line_number offset text doc self'.
        truthy (ignore_code opts (slice_to text 4)) \<and>
        report_error opts self line_number offset text doc = Inr self' \<longrightarrow>
        stdout self' = stdout self \<and>
        map_of (counters self') (slice_to text 4) =
          Some (case map_of (counters self) (slice_to text 4) of
                  Some v \<Rightarrow> v + 1 | None \<Rightarrow> 1)"
    have r: "report_error ignore_E302 ?c 3 0 ?t [] = Inr ?c"
      using ignore_E302_suppressed by (simp add: report_error_def)
    have n: "map_of (counters ?c) (slice_to ?t 4) = None"
      by code_simp
    from a ignore_E302_suppressed r have "map_of (counters ?c) (slice_to ?t 4) =
          Some (case map_of (counters ?c) (slice_to ?t 4) of
                  Some v \<Rightarrow> v + 1 | None \<Rightarrow> 1)"
      by blast
    with n show False by simp
  qed
  with ignore_E302_registered b ignore_E302_run show ?thesis
    by (intro conjI)
qed

text \<open>
  C2, amended: for every violation passed to \<open>report_error\<close> whose code is suppressed
  by the ignore/select filters, \<open>report_error\<close> returns at once and nothing changes:
  the violation is not printed, its counter is not incremented and its message is not
  recorded.
\<close>

theorem report_error_suppressed:
  "truthy (ignore_code opts (slice_to text 4)) \<longrightarrow>
   report_error opts self line_number offset text doc = Inr self"
  by (simp add: report_error_def)

theorem report_error_suppressed_witness:
  "truthy (ignore_code ignore_E302 (slice_to ''E302 expected 2 blank lines, found 0'' 4)) \<and>
   report_error ignore_E302 (new_checker ''t.py'' two_defs_lines initial_counters [] []) 3 0
     ''E302 expected 2 blank lines, found 0'' [] =
     Inr (new_checker ''t.py'' two_defs_lines initial_counters [] [])"
proof -
  have s: "truthy (ignore_code ignore_E302
             (slice_to ''E302 expected 2 blank lines, found 0'' 4))"
    by code_simp
  with report_error_suppressed [of ignore_E302 "''E302 expected 2 blank lines, found 0''"
      "new_checker ''t.py'' two_defs_lines initial_counters [] []" 3 0 "[]"]
  show ?thesis by blast
qed

subsection \<open>build\_tokens\_line\<close>

lemma fold_err_append:
  "fold_err f (xs @ ys) s =
     (case fold_err f xs s of Inl err \<Rightarrow> Inl err | Inr s' \<Rightarrow> fold_err f ys s')"
  by (induction xs arbitrary: s) (auto split: sum.splits)

lemma rstrip_Cons_nonspace:
  "\<not> isspace c \<Longrightarrow> \<exists>r. rstrip (c # s) = c # r"
proof -
  assume c: "\<not> isspace c"
  have "dropWhile isspace (rev s @ [c]) = dropWhile isspace (rev s) @ [c]"
    using c by (simp add: dropWhile_append3 dropWhile_append)
  then have "rstrip (c # s) = c # rev (dropWhile isspace (rev s))"
    by (simp add: rstrip_def)
  then show ?thesis by blast
qed

lemma lstrip_rstrip_nonspace:
  "\<not> isspace c \<Longrightarrow> lstrip (rstrip (c # s)) = rstrip (c # s)"
  using rstrip_Cons_nonspace[of c s] by (auto simp: lstrip_def)

lemma find_nonneg_endswith:
  "endswith text [q] \<Longrightarrow> 0 \<le> find text [q]"
proof -
  assume "endswith text [q]"
  then have "prefix [q] (rev text)"
    by (simp add: endswith_def startswith_prefix)
  then obtain r where "rev text = q # r" by (auto simp: prefix_def)
  then have t: "text = rev r @ [q]" by (metis rev_rev_ident rev.simps(2))
  have "prefix [q] (drop (length r) text)" by (simp add: t)
  then have "\<exists>j. prefix [q] (drop j text)" by blast
  then show ?thesis by (simp add: find_least)
qed

lemma slice_to_first: "1 \<le> n \<Longrightarrow> \<exists>r. slice_to (c # cs) n = c # r"
  by (auto simp: slice_to_def py_bound_def min_def nat_le_iff take_Cons' split: if_splits)

lemma mute_string_first:
  "\<exists>r. mute_string (c # cs) = c # r"
proof -
  define start0 where "start0 =
     (if endswith (c # cs) [CHR 0x22] then 1 + find (c # cs) [CHR 0x22]
      else if endswith (c # cs) [CHR 0x27] then 1 + find (c # cs) [CHR 0x27]
      else 1)"
  define triple where "triple =
     (endswith (c # cs) [CHR 0x22, CHR 0x22, CHR 0x22] \<or>
      endswith (c # cs) [CHR 0x27, CHR 0x27, CHR 0x27])"
  define start where "start = (if triple then start0 + 2 else start0)"
  have "1 \<le> start0"
    using find_nonneg_endswith[of "c # cs" "CHR 0x22"] find_nonneg_endswith[of "c # cs" "CHR 0x27"]
    by (auto simp: start0_def)
  then have "1 \<le> start" by (simp add: start_def)
  from slice_to_first[OF this, of c cs] obtain r where r: "slice_to (c # cs) start = c # r"
    by blast
  have "\<exists>rest. mute_string (c # cs) = slice_to (c # cs) start @ rest"
    unfolding mute_string_def Let_def start_def start0_def triple_def by simp
  with r show ?thesis by auto
qed


lemma build_step_skip: "\<not> kept token \<Longrightarrow> build_step token st = Inr st"
  by (simp add: build_step_def kept_def)

lemma build_step_kept:
  "kept token \<Longrightarrow> build_step token st = Inr st' \<Longrightarrow>
   b_previous st' = Some token \<and>
   self_lines (b_self st') = self_lines (b_self st) \<and>
   (\<exists>fill. b_logical st' = b_logical st @ fill @ [contributed_text token] \<and>
      (b_previous st = None \<longrightarrow> fill = []))"
  by (auto simp: build_step_def kept_def contributed_text_def Let_def
      split: if_splits sum.splits option.splits)

lemma build_steps_state:
  "fold_err build_step toks (build_init self) = Inr st \<Longrightarrow>
   self_lines (b_self st) = self_lines self \<and>
   b_previous st = (if filter kept toks = [] then None else Some (last (filter kept toks))) \<and>
   (filter kept toks = [] \<longrightarrow> b_logical st = []) \<and>
   (\<forall>t ts. filter kept toks = t # ts \<longrightarrow>
      (\<exists>rest. concat (b_logical st) = contributed_text t @ rest))"
proof (induction toks arbitrary: st rule: rev_induct)
  case Nil
  then show ?case by (auto simp: build_init_def)
next
  case (snoc tok toks)
  from snoc.prems obtain st1 where
    s1: "fold_err build_step toks (build_init self) = Inr st1"
    and s2: "build_step tok st1 = Inr st"
    by (auto simp: fold_err_append split: sum.splits)
  note ih = snoc.IH[OF s1]
  show ?case
  proof (cases "kept tok")
    case False
    with s2 have "st = st1" by (simp add: build_step_skip)
    with ih False show ?thesis by simp
  next
    case True
    from build_step_kept[OF True s2] obtain fill where
      p: "b_previous st = Some tok"
      and l: "self_lines (b_self st) = self_lines (b_self st1)"
      and f: "b_logical st = b_logical st1 @ fill @ [contributed_text tok]"
      and e: "b_previous st1 = None \<longrightarrow> fill = []"
      by (elim conjE exE)
    show ?thesis
    proof (cases "filter kept toks")
      case Nil
      with ih e have "b_logical st1 = []" "fill = []" by auto
      with f p l ih Nil True show ?thesis by simp
    next
      case (Cons t ts)
      with ih obtain rest where "concat (b_logical st1) = contributed_text t @ rest" by blast
      with f have "concat (b_logical st) =
          contributed_text t @ (rest @ concat fill @ contributed_text tok)"
        by simp
      with p l ih Cons True show ?thesis by auto
    qed
  qed
qed

lemma contributed_text_first:
  "tok_text t = c # cs \<Longrightarrow> \<exists>r. contributed_text t = c # r"
  using mute_string_first[of c cs] by (auto simp: contributed_text_def)

text \<open>
  The assertion of \<open>build_tokens_line\<close> cannot fail when the text of the first
  contributing token starts with a character that is not white space.
\<close>

lemma build_tokens_line_left_stripped:
  assumes first: "\<And>t ts. filter kept (self_tokens self) = t # ts \<Longrightarrow>
                    tok_text t \<noteq> [] \<and> \<not> isspace (hd (tok_text t))"
  shows "build_tokens_line self \<noteq> Inl AssertionError"
proof (cases "fold_err build_step (self_tokens self) (build_init self)")
  case (Inl err)
  have "err \<noteq> AssertionError"
  proof -
    have step: "\<And>tok st. build_step tok st \<noteq> Inl AssertionError"
      by (auto simp: build_step_def fill_between_def Let_def
          split: if_splits sum.splits option.splits)
    have "\<And>st. fold_err build_step toks st \<noteq> Inl AssertionError" for toks
    proof (induction toks)
      case Nil
      show ?case by simp
    next
      case (Cons tok toks)
      show ?case using step[of tok st] Cons.IH
        by (auto split: sum.splits)
    qed
    with Inl show ?thesis by metis
  qed
  with Inl show ?thesis by (simp add: build_tokens_line_def)
next
  case (Inr st)
  note st = build_steps_state[OF Inr]
  have "lstrip (rstrip (concat (b_logical st))) = rstrip (concat (b_logical st))"
  proof (cases "filter kept (self_tokens self)")
    case Nil
    with st have "b_logical st = []" by simp
    then show ?thesis by (simp add: lstrip_def rstrip_def)
  next
    case (Cons t ts)
    from first[OF Cons] obtain c cs where c: "tok_text t = c # cs" "\<not> isspace c"
      by (cases "tok_text t") auto
    from contributed_text_first[OF c(1)] obtain r where "contributed_text t = c # r" by blast
    moreover from st Cons obtain rest where "concat (b_logical st) = contributed_text t @ rest"
      by blast
    ultimately have "concat (b_logical st) = c # (r @ rest)" by simp
    with c(2) show ?thesis by (simp add: lstrip_rstrip_nonspace)
  qed
  with Inr show ?thesis by (simp add: build_tokens_line_def Let_def)
qed


lemma contains_closing:
  "contains ''}])'' text \<longleftrightarrow> text \<in> {[], ''}'', '']'', '')'', ''}]'', ''])'', ''}])''}"
proof (cases "text")
  case Nil
  then show ?thesis by (simp add: contains_def find_def)
next
  case c1: (Cons a t1)
  show ?thesis
  proof (cases t1)
    case Nil
    with c1 show ?thesis by (auto simp: contains_def find_def)
  next
    case c2: (Cons b t2)
    show ?thesis
    proof (cases t2)
      case Nil
      with c1 c2 show ?thesis by (auto simp: contains_def find_def)
    next
      case c3: (Cons c t3)
      show ?thesis
      proof (cases t3)
        case Nil
        with c1 c2 c3 show ?thesis by (auto simp: contains_def find_def)
      next
        case (Cons d t4)
        with c1 c2 c3 show ?thesis by (auto simp: contains_def find_def)
      qed
    qed
  qed
qed

lemma py_slice_same: "py_slice row a a = []"
  by (simp add: py_slice_def Let_def)

lemma fill_between_join:
  assumes row: "py_index file_lines (fst (tok_end previous) - 1) = Some row"
    and lastc: "fst (tok_end previous) \<noteq> fst (tok_start token) \<longrightarrow>
                py_index row (snd (tok_end previous) - 1) = Some (last (tok_text previous))"
    and real: "contributed_text token \<notin> {[], ''}]'', ''])'', ''}])''}"
  shows "\<exists>fill. fill_between file_lines previous token (contributed_text token) = Inr fill \<and>
           concat fill = join_text row previous token"
proof (cases "fst (tok_end previous) = fst (tok_start token)")
  case True
  with row show ?thesis
    by (auto simp: fill_between_def join_text_def Let_def py_slice_same)
next
  case False
  with lastc have l: "py_index row (snd (tok_end previous) - 1) = Some (last (tok_text previous))"
    by simp
  from real have c: "contains ''}])'' (contributed_text token) =
      closing_bracket (contributed_text token)"
    unfolding contains_closing closing_bracket_def by auto
  from False row l show ?thesis
    by (auto simp: fill_between_def join_text_def Let_def c opening_bracket_def)
qed

lemma build_step_join:
  assumes k: "kept token"
    and p: "b_previous st = Some previous"
    and row: "py_index (self_lines (b_self st)) (fst (tok_end previous) - 1) = Some row"
    and lastc: "fst (tok_end previous) \<noteq> fst (tok_start token) \<longrightarrow>
                py_index row (snd (tok_end previous) - 1) = Some (last (tok_text previous))"
    and real: "contributed_text token \<notin> {[], ''}]'', ''])'', ''}])''}"
  shows "\<exists>st'. build_step token st = Inr st' \<and>
           concat (b_logical st') =
             concat (b_logical st) @ join_text row previous token @ contributed_text token"
proof -
  from fill_between_join[OF row lastc real] obtain fill where
    f: "fill_between (self_lines (b_self st)) previous token (contributed_text token) = Inr fill"
    and j: "concat fill = join_text row previous token"
    by blast
  from k p f j show ?thesis
    by (auto simp: build_step_def kept_def contributed_text_def Let_def)
qed

lemma joined_text_snoc:
  "ks \<noteq> [] \<Longrightarrow>
   joined_text file_lines (ks @ [t]) =
     joined_text file_lines ks @ join_text (source_row file_lines (last ks)) (last ks) t @
     contributed_text t"
  by (induction file_lines ks rule: joined_text.induct) auto

lemma well_positioned_snoc:
  "well_positioned file_lines (ks @ [t]) =
     (well_positioned file_lines ks \<and> (ks \<noteq> [] \<longrightarrow> positioned file_lines (last ks) t))"
  by (induction file_lines ks rule: joined_text.induct) auto

lemma build_step_first:
  "kept token \<Longrightarrow> b_previous st = None \<Longrightarrow>
   \<exists>st'. build_step token st = Inr st' \<and>
         b_logical st' = b_logical st @ [contributed_text token]"
  by (auto simp: build_step_def kept_def contributed_text_def Let_def)

lemma build_steps_joined:
  "well_positioned (self_lines self) (filter kept toks) \<Longrightarrow>
   \<exists>st. fold_err build_step toks (build_init self) = Inr st \<and>
        concat (b_logical st) = joined_text (self_lines self) (filter kept toks)"
proof (induction toks rule: rev_induct)
  case Nil
  show ?case by (simp add: build_init_def)
next
  case (snoc tok toks)
  show ?case
  proof (cases "kept tok")
    case False
    with snoc.prems have "well_positioned (self_lines self) (filter kept toks)" by simp
    from snoc.IH[OF this] obtain st where
      "fold_err build_step toks (build_init self) = Inr st"
      "concat (b_logical st) = joined_text (self_lines self) (filter kept toks)"
      by blast
    with False show ?thesis
      by (simp add: fold_err_append build_step_skip)
  next
    case True
    define ks where "ks = filter kept toks"
    from snoc.prems True have wp: "well_positioned (self_lines self) (ks @ [tok])"
      by (simp add: ks_def)
    then have wks: "well_positioned (self_lines self) ks"
      and pair: "ks \<noteq> [] \<longrightarrow> positioned (self_lines self) (last ks) tok"
      by (simp_all add: well_positioned_snoc)
    from snoc.IH wks obtain st where
      run: "fold_err build_step toks (build_init self) = Inr st"
      and joined: "concat (b_logical st) = joined_text (self_lines self) ks"
      unfolding ks_def by blast
    note state = build_steps_state[OF run]
    show ?thesis
    proof (cases "ks = []")
      case True
      with state have "b_previous st = None" and "b_logical st = []"
        by (simp_all add: ks_def)
      with build_step_first[OF \<open>kept tok\<close>, of st] obtain st' where
        "build_step tok st = Inr st'" "b_logical st' = [contributed_text tok]"
        by auto
      with run True \<open>kept tok\<close> show ?thesis
        by (simp add: fold_err_append ks_def)
    next
      case False
      with state have p: "b_previous st = Some (last ks)"
        and l: "self_lines (b_self st) = self_lines self"
        by (simp_all add: ks_def)
      from False pair have pos: "positioned (self_lines self) (last ks) tok" by simp
      then obtain row where
        row: "py_index (self_lines self) (fst (tok_end (last ks)) - 1) = Some row"
        and lastc: "fst (tok_end (last ks)) \<noteq> fst (tok_start tok) \<longrightarrow>
                    py_index row (snd (tok_end (last ks)) - 1) = Some (last (tok_text (last ks)))"
        and real: "contributed_text tok \<notin> {[], ''}]'', ''])'', ''}])''}"
        by (auto simp: positioned_def split: option.splits)
      from row have sr: "source_row (self_lines self) (last ks) = row"
        by (simp add: source_row_def)
      from row l have row': "py_index (self_lines (b_self st)) (fst (tok_end (last ks)) - 1) =
          Some row" by simp
      from build_step_join[OF \<open>kept tok\<close> p row' lastc real] obtain st' where
        "build_step tok st = Inr st'"
        "concat (b_logical st') =
           concat (b_logical st) @ join_text row (last ks) tok @ contributed_text tok"
        by blast
      with run joined False \<open>kept tok\<close> sr show ?thesis
        by (simp add: fold_err_append joined_text_snoc ks_def)
    qed
  qed
qed

text \<open>
  C4: let every two consecutive kept tokens of the logical line be positioned as a
  tokenizer positions them on the lines of the file (the source row on which the first
  ends exists, the source character before its end is the last character of its text
  when the second starts on another row, and the text of the second is the text of a
  real token: not empty, and not a run of two or three closing brackets). Then
  \<open>build_tokens_line\<close> does not fail on an index, and the logical line it produces
  is the right-stripped \<open>joined_text\<close> of the kept tokens: the text of each token,
  and between two consecutive tokens what \<open>join_text\<close> says, which on different
  rows is one space when the first ends with a comma, or does not end with an opening
  bracket while the second is not a closing bracket, and nothing otherwise, and on the
  same row is the source text between the two tokens. The method returns the checker
  with this logical line, unless the line starts with white space, when its assertion
  fails.
\<close>

theorem build_tokens_line_join:
  assumes "well_positioned (self_lines self) (filter kept (self_tokens self))"
  shows "\<exists>self'.
           self_logical_line self' =
             rstrip (joined_text (self_lines self) (filter kept (self_tokens self))) \<and>
           build_tokens_line self =
             (if lstrip (self_logical_line self') = self_logical_line self' then Inr self'
              else Inl AssertionError)"
proof -
  from build_steps_joined[OF assms] obtain st where
    run: "fold_err build_step (self_tokens self) (build_init self) = Inr st"
    and joined: "concat (b_logical st) =
      joined_text (self_lines self) (filter kept (self_tokens self))"
    by blast
  define self' where "self' = (b_self st)\<lparr>self_logical_line := rstrip (concat (b_logical st))\<rparr>"
  have "self_logical_line self' =
      rstrip (joined_text (self_lines self) (filter kept (self_tokens self)))"
    by (simp add: self'_def joined)
  moreover have "build_tokens_line self =
      (if lstrip (self_logical_line self') = self_logical_line self' then Inr self'
       else Inl AssertionError)"
    by (simp add: build_tokens_line_def run self'_def Let_def)
  ultimately show ?thesis by blast
qed

lemma call_line_positioned:
  "well_positioned (self_lines call_line) (filter kept (self_tokens call_line))"
  by code_simp

lemma call_line_joined:
  "joined_text (self_lines call_line) (filter kept (self_tokens call_line)) = ''f(a, b)''"
  by code_simp

lemma call_line_built:
  "map_sum id self_logical_line (build_tokens_line call_line) = Inr ''f(a, b)''"
  by code_simp

theorem build_tokens_line_join_witness:
  "well_positioned (self_lines call_line) (filter kept (self_tokens call_line)) \<and>
   joined_text (self_lines call_line) (filter kept (self_tokens call_line)) = ''f(a, b)'' \<and>
   (\<exists>self'. self_logical_line self' = ''f(a, b)'' \<and> build_tokens_line call_line = Inr self')"
proof -
  have s: "rstrip ''f(a, b)'' = ''f(a, b)''" "lstrip ''f(a, b)'' = ''f(a, b)''"
    by code_simp+
  from build_tokens_line_join [OF call_line_positioned] obtain self' where
    "self_logical_line self' =
       rstrip (joined_text (self_lines call_line) (filter kept (self_tokens call_line)))"
    "build_tokens_line call_line =
       (if lstrip (self_logical_line self') = self_logical_line self' then Inr self'
        else Inl AssertionError)"
    by blast
  then have "self_logical_line self' = ''f(a, b)'' \<and> build_tokens_line call_line = Inr self'"
    by (simp add: call_line_joined s)
  with call_line_positioned call_line_joined show ?thesis by blast
qed

lemma stray_dollar_line:
  "build_tokens_line
     ((new_checker ''t.py'' stray_dollar_lines initial_counters [] [])
        \<lparr>self_tokens := stray_dollar_tokens\<rparr>) = Inl AssertionError"
  by code_simp

lemma stray_dollar_file:
  "input_file e default_options fname stray_dollar_lines stray_dollar_events =
     Inl AssertionError"
  by code_simp

text \<open>
  C3 on a file the checker can be given: two lines, a backslash alone and then a space
  and a dollar sign. After the continuation line the tokenizer yields the space as an
  ERRORTOKEN of its own, which is the first token of the logical line; the text built is
  \<open> $\<close>, the assertion fails and the checker ends with AssertionError.
\<close>

theorem build_tokens_line_assertion_fails:
  "build_tokens_line
     ((new_checker ''t.py'' stray_dollar_lines initial_counters [] [])
        \<lparr>self_tokens := stray_dollar_tokens\<rparr>) = Inl AssertionError \<and>
   input_file e default_options fname stray_dollar_lines stray_dollar_events =
     Inl AssertionError"
  using stray_dollar_line stray_dollar_file [of e fname]
  by (intro conjI)

subsection \<open>Fixing twice\<close>

lemma one_tab_fix:
  "map_sum id self_writer
     (input_file e (default_options\<lparr>opt_fix := True\<rparr>) fname one_tab_lines one_tab_events) =
   Inr (''if x:'' @ [CHR 0x0A] @ replicate 4 (CHR 0x09) @ ''pass'' @ [CHR 0x0A])"
  by code_simp

lemma four_tabs_fix:
  "map_sum id (\<lambda>s. (self_writer s, map_of (counters s) ''W191''))
     (input_file e (default_options\<lparr>opt_fix := True\<rparr>) fname four_tabs_lines four_tabs_events) =
   Inr (''if x:'' @ [CHR 0x0A] @ replicate 16 (CHR 0x09) @ ''pass'' @ [CHR 0x0A], Some 1)"
  by code_simp

lemma four_tabs_text:
  "concat four_tabs_lines =
     ''if x:'' @ [CHR 0x0A] @ replicate 4 (CHR 0x09) @ ''pass'' @ [CHR 0x0A]"
  by code_simp

text \<open>
  C9 on the file \<open>if x: / <tab>pass\<close>: with fixing on, the checker writes the second
  line with four tabs (the indent level counts columns, and the indent character is
  written once for each column). Run again on that output, it writes sixteen tabs, and
  it counts W191 again, a code whose check has a fix operation.
\<close>

theorem fix_pass_tabs_not_idempotent:
  "map_sum id self_writer
     (input_file e (default_options\<lparr>opt_fix := True\<rparr>) fname one_tab_lines one_tab_events) =
     Inr (concat four_tabs_lines) \<and>
   map_sum id (\<lambda>s. (self_writer s, map_of (counters s) ''W191''))
     (input_file e (default_options\<lparr>opt_fix := True\<rparr>) fname four_tabs_lines four_tabs_events) =
     Inr (''if x:'' @ [CHR 0x0A] @ replicate 16 (CHR 0x09) @ ''pass'' @ [CHR 0x0A], Some 1) \<and>
   concat four_tabs_lines \<noteq>
     ''if x:'' @ [CHR 0x0A] @ replicate 16 (CHR 0x09) @ ''pass'' @ [CHR 0x0A] \<and>
   has_fix Tabs_obsolete \<and> codes Tabs_obsolete = [''W191'']"
  using one_tab_fix [of e fname] four_tabs_fix [of e fname]
  by (simp add: four_tabs_text)

end
